theory Spec2Isabelle
  imports Complex_Main "HOL-Library.Sublist"
begin

section \<open>Python values as the module observes them\<close>

text \<open>
  A row maps column names to scalar values. The module never computes with a value; it
  only asks of it: is it a \<^verbatim>\<open>bool\<close>, does \<^verbatim>\<open>x + 1\<close> raise, has it a
  \<^verbatim>\<open>__len__\<close>, is it a \<^verbatim>\<open>datetime.datetime\<close>, is it a \<^verbatim>\<open>datetime.date\<close>.
  The built-in scalar types are constructors of their own. \<open>PyObject\<close> stands for a value
  of any other class, given by what the module can observe of it: whether adding 1 works,
  whether it has a length, and which of the two date classes its class derives from
  (for instance \<^verbatim>\<open>Decimal\<close>: addition works, no length, no date class; a numeric
  array: addition works, has a length; a list: addition raises, has a length; a
  timestamp subclass that defines addition with integers: addition works, no length,
  derives from \<^verbatim>\<open>datetime.datetime\<close>). \<^verbatim>\<open>bool\<close> cannot be subclassed.
\<close>

datatype py_base = OtherClass | DateClass | DatetimeClass

datatype py_val =
    PyNone
  | PyBool bool
  | PyInt int
  | PyFloat real
  | PyStr string
  | PyDatetime nat nat nat nat nat nat
  | PyDate nat nat nat
  | PyObject (obj_add_ok: bool) (obj_has_len: bool) (obj_base: py_base)

text \<open>\<^verbatim>\<open>isinstance(x, bool)\<close>\<close>

fun isinstance_bool :: "py_val \<Rightarrow> bool" where
  "isinstance_bool (PyBool b) = True"
| "isinstance_bool v = False"

text \<open>
  \<^verbatim>\<open>x + 1\<close> does not raise: \<^verbatim>\<open>bool\<close>, \<^verbatim>\<open>int\<close> and \<^verbatim>\<open>float\<close> add to an
  integer; \<^verbatim>\<open>None\<close>, strings, dates and timestamps raise \<^verbatim>\<open>TypeError\<close>.
\<close>

fun supports_add_1 :: "py_val \<Rightarrow> bool" where
  "supports_add_1 (PyBool b) = True"
| "supports_add_1 (PyInt i) = True"
| "supports_add_1 (PyFloat r) = True"
| "supports_add_1 (PyObject a l c) = a"
| "supports_add_1 v = False"

text \<open>\<^verbatim>\<open>hasattr(x, '__len__')\<close>\<close>

fun hasattr_len :: "py_val \<Rightarrow> bool" where
  "hasattr_len (PyStr s) = True"
| "hasattr_len (PyObject a l c) = l"
| "hasattr_len v = False"

text \<open>\<^verbatim>\<open>isinstance(x, datetime.datetime)\<close>\<close>

fun isinstance_datetime :: "py_val \<Rightarrow> bool" where
  "isinstance_datetime (PyDatetime y m d h mi s) = True"
| "isinstance_datetime (PyObject a l c) = (c = DatetimeClass)"
| "isinstance_datetime v = False"

text \<open>
  \<^verbatim>\<open>isinstance(x, datetime.date)\<close>: \<^verbatim>\<open>datetime.datetime\<close> is a subclass of
  \<^verbatim>\<open>datetime.date\<close>.
\<close>

fun isinstance_date :: "py_val \<Rightarrow> bool" where
  "isinstance_date (PyDate y m d) = True"
| "isinstance_date (PyDatetime y m d h mi s) = True"
| "isinstance_date (PyObject a l c) = (c \<noteq> OtherClass)"
| "isinstance_date v = False"

section \<open>Column types and type inference\<close>

text \<open>
  The column types the module imports from the database library. \<open>String\<close> is the text
  type without a length, \<open>String_n n\<close> is \<^verbatim>\<open>String(n)\<close>.
\<close>

datatype db_type = Integer | String | String_n nat | Float | Boolean | DateTime | Date

text \<open>
  \<^verbatim>\<open>
  def _is_number(x):
      try:
          _ = x + 1
      except:
          return False
      return not hasattr(x, '__len__')
  \<close>
\<close>

definition is_number :: "py_val \<Rightarrow> bool" where
  "is_number x = (if \<not> supports_add_1 x then False else \<not> hasattr_len x)"

text \<open>
  \<^verbatim>\<open>
  PYTHON_TO_DB_TYPE = [
      # Order matters!
      (lambda x: isinstance(x, bool), Boolean),
      (_is_number, Float),
      (lambda x: isinstance(x, datetime.datetime), DateTime),
      (lambda x: isinstance(x, datetime.date), Date),
  ]
  \<close>
\<close>

definition PYTHON_TO_DB_TYPE :: "((py_val \<Rightarrow> bool) \<times> db_type) list" where
  "PYTHON_TO_DB_TYPE =
     [ (\<lambda>x. isinstance_bool x, Boolean),
       (is_number, Float),
       (\<lambda>x. isinstance_datetime x, DateTime),
       (\<lambda>x. isinstance_date x, Date) ]"

text \<open>\<^verbatim>\<open>'postgresql' in drivername or 'sqlite' in drivername\<close>: substring tests.\<close>

definition does_support_varchar :: "string \<Rightarrow> bool" where
  "does_support_varchar drivername =
     (sublist ''postgresql'' drivername \<or> sublist ''sqlite'' drivername)"

text \<open>
  \<^verbatim>\<open>
  def infer_db_type(val, drivername):
      for is_type_f, db_type in PYTHON_TO_DB_TYPE:
          if is_type_f(val):
              return db_type
      return String if _does_support_varchar(drivername) else String(100)
  \<close>
  The loop over the rule table: the first rule whose predicate holds returns its type;
  when the table is exhausted the fallback is returned.
\<close>

fun infer_loop :: "((py_val \<Rightarrow> bool) \<times> db_type) list \<Rightarrow> py_val \<Rightarrow> db_type option" where
  "infer_loop [] val = None"
| "infer_loop ((is_type_f, t) # rules) val =
     (if is_type_f val then Some t else infer_loop rules val)"

definition infer_db_type :: "py_val \<Rightarrow> string \<Rightarrow> db_type" where
  "infer_db_type val drivername =
     (case infer_loop PYTHON_TO_DB_TYPE val of
        Some t \<Rightarrow> t
      | None \<Rightarrow> (if does_support_varchar drivername then String else String_n 100))"

section \<open>Errors\<close>

text \<open>
  Every way an operation of the module can raise. \<open>SqlAlchemyDbException\<close> is the module's
  own exception and carries its message; \<open>KeyError\<close> carries the missing dictionary key;
  \<open>AttributeError\<close> carries the attribute looked up on \<^verbatim>\<open>None\<close>; \<open>DatabaseError\<close>
  is any failure signalled by the database server (constraint violation, lost connection,
  rejected statement); \<open>CallbackError\<close> is raised by a caller-supplied function;
  \<open>ArgumentError\<close> is raised by the database library when a class is mapped to a table
  without a primary key; \<open>ValueError\<close> is raised by the database library when an upsert
  is given nothing to update.
\<close>

datatype error =
    SqlAlchemyDbException string
  | KeyError string
  | AttributeError string
  | DatabaseError string
  | CallbackError string
  | ArgumentError
  | ValueError

section \<open>Columns, tables, rows and statements\<close>

text \<open>\<^verbatim>\<open>Column(name, type, primary_key=...)\<close>; \<^verbatim>\<open>primary_key\<close> defaults to false.\<close>

datatype column = Column (col_name: string) (col_type: db_type) (primary_key: bool)

text \<open>A table object: its name and its columns, one per column name.\<close>

datatype sqlalchemy_table = Table (t_name: string) (t_columns: "column list")

text \<open>
  \<^verbatim>\<open>Table(name, metadata, *columns)\<close> adds the columns one after the other; a column
  whose name the table already has replaces the earlier column of that name, in its
  place.
\<close>

fun replace_column :: "column \<Rightarrow> column list \<Rightarrow> column list" where
  "replace_column c [] = [c]"
| "replace_column c (d # ds) =
     (if col_name d = col_name c then c # ds else d # replace_column c ds)"

definition table_columns :: "column list \<Rightarrow> column list" where
  "table_columns columns = foldl (\<lambda>added c. replace_column c added) [] columns"

definition new_Table :: "string \<Rightarrow> column list \<Rightarrow> sqlalchemy_table" where
  "new_Table nm columns = Table nm (table_columns columns)"

text \<open>
  A row is a Python dictionary from column names to values: an association list in
  iteration order, \<^verbatim>\<open>record[col]\<close> being the lookup that raises \<^verbatim>\<open>KeyError\<close>.
\<close>

type_synonym row = "(string \<times> py_val) list"

definition keys :: "row \<Rightarrow> string list" where
  "keys rec = map fst rec"

definition getitem :: "row \<Rightarrow> string \<Rightarrow> error + py_val" where
  "getitem rec col = (case map_of rec col of None \<Rightarrow> Inl (KeyError col) | Some v \<Rightarrow> Inr v)"

text \<open>
  The statements the three builders produce: \<^verbatim>\<open>insert(table).values(record)\<close>, the
  PostgreSQL \<^verbatim>\<open>on_conflict_do_update(index_elements, set_)\<close> and the MySQL
  \<^verbatim>\<open>on_duplicate_key_update(**record)\<close>; \<open>OtherStatement\<close> is whatever else a
  caller-supplied builder returns. The two upsert constructions raise \<^verbatim>\<open>ValueError\<close>
  when the record is empty, since there is nothing to update on a conflict; the plain
  insert takes an empty record.
\<close>

datatype insert_stmt =
    Insert sqlalchemy_table row
  | PostgresUpsert sqlalchemy_table row "column list" row
  | MysqlUpsert sqlalchemy_table row row
  | OtherStatement string

type_synonym insert_f = "sqlalchemy_table \<Rightarrow> row \<Rightarrow> error + insert_stmt"

definition create_insert :: insert_f where
  "create_insert table rec = Inr (Insert table rec)"

definition create_upsert_postgres :: insert_f where
  "create_upsert_postgres table rec =
     (if rec = [] then Inl ValueError
      else Inr (PostgresUpsert table rec (filter primary_key (t_columns table)) rec))"

definition create_upsert_mysql :: insert_f where
  "create_upsert_mysql table rec =
     (if rec = [] then Inl ValueError else Inr (MysqlUpsert table rec rec))"

section \<open>Columns from a sample record\<close>

text \<open>
  \<^verbatim>\<open>
  def _columns_from_sample_record(record, primary_key_column_names, drivername):
      if len(primary_key_column_names) > 0:
          primary_key_columns = [
              Column(col, infer_db_type(record[col], drivername), primary_key=True)
              for col in primary_key_column_names
          ]
          other_columns = [
              Column(col, infer_db_type(value, drivername))
              for col, value in record.iteritems()
              if col not in primary_key_column_names
          ]
      else:
          pri_col_name = 'id'
          while pri_col_name in record.keys():
              pri_col_name += '_'
          primary_key_columns = [Column(pri_col_name, Integer, primary_key=True)]
          other_columns = [
              Column(col, infer_db_type(value, drivername))
              for col, value in record.iteritems()
          ]
      return primary_key_columns + other_columns
  \<close>
  The loop that picks the synthetic key name ends because each round makes the name
  longer and the record has finitely many keys.
\<close>

function pri_col_name_loop :: "row \<Rightarrow> string \<Rightarrow> string" where
  "pri_col_name_loop rec pri_col_name =
     (if pri_col_name \<in> set (keys rec)
      then pri_col_name_loop rec (pri_col_name @ ''_'')
      else pri_col_name)"
  by pat_completeness auto

termination pri_col_name_loop
proof (relation "measure (\<lambda>(rec, n). Suc (sum_list (map length (keys rec))) - length n)")
  show "wf (measure (\<lambda>(rec, n). Suc (sum_list (map length (keys rec))) - length n))"
    by simp
next
  fix rec :: row and pri_col_name :: string
  assume "pri_col_name \<in> set (keys rec)"
  then have "length pri_col_name \<in> set (map length (keys rec))"
    by simp
  then have "length pri_col_name \<le> sum_list (map length (keys rec))"
    by (simp add: member_le_sum_list del: set_map)
  then show "((rec, pri_col_name @ ''_''), (rec, pri_col_name))
      \<in> measure (\<lambda>(rec, n). Suc (sum_list (map length (keys rec))) - length n)"
    by simp
qed

declare pri_col_name_loop.simps [simp del]

text \<open>
  The comprehension building the primary-key columns reads \<^verbatim>\<open>record[col]\<close> for each
  configured name in order; the first name missing from the record raises.
\<close>

fun primary_key_columns_of :: "row \<Rightarrow> string \<Rightarrow> string list \<Rightarrow> error + column list" where
  "primary_key_columns_of rec drivername [] = Inr []"
| "primary_key_columns_of rec drivername (col # cols) =
     (case getitem rec col of
        Inl e \<Rightarrow> Inl e
      | Inr v \<Rightarrow>
          (case primary_key_columns_of rec drivername cols of
             Inl e \<Rightarrow> Inl e
           | Inr cs \<Rightarrow> Inr (Column col (infer_db_type v drivername) True # cs)))"

definition columns_from_sample_record :: "row \<Rightarrow> string list \<Rightarrow> string \<Rightarrow> error + column list" where
  "columns_from_sample_record rec primary_key_column_names drivername =
     (if length primary_key_column_names > 0 then
        (case primary_key_columns_of rec drivername primary_key_column_names of
           Inl e \<Rightarrow> Inl e
         | Inr primary_key_columns \<Rightarrow>
             Inr (primary_key_columns @
                  map (\<lambda>(col, v). Column col (infer_db_type v drivername) False)
                      (filter (\<lambda>(col, v). col \<notin> set primary_key_column_names) rec)))
      else
        Inr ([Column (pri_col_name_loop rec ''id'') Integer True] @
             map (\<lambda>(col, v). Column col (infer_db_type v drivername) False) rec))"

section \<open>Configuration, engine, session\<close>

record URL =
  drivername :: string
  username :: "string option"
  password :: "string option"
  host :: "string option"
  port :: "nat option"
  database :: "string option"

record SourceConfiguration =
  url :: URL
  create_if_missing :: bool

definition SourceConfiguration_init ::
  "string \<Rightarrow> string option \<Rightarrow> nat option \<Rightarrow> string option \<Rightarrow> string option \<Rightarrow> string option
     \<Rightarrow> bool \<Rightarrow> SourceConfiguration" where
  "SourceConfiguration_init drv h p d u pw flag =
     \<lparr> url = \<lparr> drivername = drv, username = u, password = pw, host = h, port = p, database = d \<rparr>,
       create_if_missing = flag \<rparr>"

text \<open>
  The database server is an external collaborator. What the module sees of it is whether
  each request is accepted; these responses are parameters of the model:
  whether creating the database fails, whether creating a given table fails, what
  executing a statement does to the stored rows (or the error it raises), and whether
  committing fails.
\<close>

type_synonym table_rows = "string \<Rightarrow> row list"

record backend =
  create_database_error :: "error option"
  create_table_error :: "sqlalchemy_table \<Rightarrow> error option"
  execute_insert :: "insert_stmt \<Rightarrow> table_rows \<Rightarrow> error + table_rows"
  commit_error :: "insert_stmt \<Rightarrow> error option"

text \<open>\<^verbatim>\<open>create_engine(url)\<close>: the engine knows its URL and talks to the server.\<close>

record engine =
  engine_url :: URL
  engine_backend :: backend

definition create_engine :: "URL \<Rightarrow> backend \<Rightarrow> engine" where
  "create_engine u b = \<lparr> engine_url = u, engine_backend = b \<rparr>"

text \<open>
  The state of the database itself: whether it exists, the schema of each table
  (its columns) and the committed rows of each table.
\<close>

record db_state =
  db_exists :: bool
  db_tables :: "string \<rightharpoonup> column list"
  db_rows :: table_rows

text \<open>
  A session is bound to the engine and is observed through the calls made on it, in
  order.
\<close>

datatype session_call =
    Execute insert_stmt
  | Commit
  | Rollback
  | Close
  | Query sqlalchemy_table

record session_obj =
  bind :: engine
  calls :: "session_call list"

definition call :: "session_obj \<Rightarrow> session_call list \<Rightarrow> session_obj" where
  "call s cs = s\<lparr> calls := calls s @ cs \<rparr>"

text \<open>\<^verbatim>\<open>MetaData(bind=engine)\<close>: a fresh table registry bound to the engine.\<close>

datatype MetaData = MetaData engine

type_synonym define_f = "MetaData \<Rightarrow> error + sqlalchemy_table"

record TableConfiguration =
  table_name :: string
  define_table_f :: "define_f option"
  create_table_if_missing :: bool
  primary_key_column_names :: "string list"
  create_insert_f :: "insert_f option"

text \<open>\<^verbatim>\<open>self.primary_key_column_names = primary_key_columns or []\<close>\<close>

definition TableConfiguration_init ::
  "string \<Rightarrow> define_f option \<Rightarrow> bool \<Rightarrow> string list option \<Rightarrow> insert_f option
     \<Rightarrow> TableConfiguration" where
  "TableConfiguration_init nm define_f flag primary_key_columns insert_f =
     \<lparr> table_name = nm,
       define_table_f = define_f,
       create_table_if_missing = flag,
       primary_key_column_names =
         (case primary_key_columns of None \<Rightarrow> [] | Some [] \<Rightarrow> [] | Some cols \<Rightarrow> cols),
       create_insert_f = insert_f \<rparr>"

section \<open>Table classes and table handles\<close>

text \<open>
  \<^verbatim>\<open>
  def create_table_class(sqlalchemy_table):
      class TableClass(declarative_base()):
          __table__ = sqlalchemy_table
      return TableClass
  \<close>
  A mapped class whose \<^verbatim>\<open>__table__\<close> is the table. Declaring the class maps it, and
  the mapping needs a primary key: for a table with no primary-key column the class
  statement raises \<^verbatim>\<open>ArgumentError\<close>.
\<close>

datatype table_class = TableClass (table_of: sqlalchemy_table)

definition create_table_class :: "sqlalchemy_table \<Rightarrow> error + table_class" where
  "create_table_class t =
     (if filter primary_key (t_columns t) = [] then Inl ArgumentError
      else Inr (TableClass t))"

definition get_column_names_from_table :: "table_class \<Rightarrow> string list" where
  "get_column_names_from_table table_class = map col_name (t_columns (table_of table_class))"

text \<open>The class \<^verbatim>\<open>_Table\<close> and its constructor.\<close>

record Table_handle =
  Class :: table_class
  sqlalchemy_table :: sqlalchemy_table
  handle_name :: string
  column_names :: "string list"

definition Table_init :: "table_class \<Rightarrow> string \<Rightarrow> Table_handle" where
  "Table_init table_class nm =
     \<lparr> Class = table_class,
       sqlalchemy_table = table_of table_class,
       handle_name = nm,
       column_names = get_column_names_from_table table_class \<rparr>"

text \<open>
  \<^verbatim>\<open>{col: getattr(db_record, col) for col in self._column_names}\<close>; a mapped object has
  every column as an attribute, \<^verbatim>\<open>None\<close> where the stored row has no value.
\<close>

definition from_db_record :: "Table_handle \<Rightarrow> row \<Rightarrow> row" where
  "from_db_record t db_record =
     map (\<lambda>col. (col, case map_of db_record col of None \<Rightarrow> PyNone | Some v \<Rightarrow> v))
         (column_names t)"

section \<open>Loading and creating tables\<close>

text \<open>
  \<^verbatim>\<open>
  def load_table(session, name):
      table_class = None
      engine = session.bind
      if engine.dialect.has_table(engine, name):
          metadata = MetaData(bind=engine)
          table_class = create_table_class(Table(name, metadata, autoload=True))
      return table_class
  \<close>
  \<^verbatim>\<open>session.bind\<close> raises on \<^verbatim>\<open>None\<close>; otherwise the table is reflected with the
  columns the database has for it and the class is made for it (which raises when the
  table has no primary key), and \<^verbatim>\<open>None\<close> is returned when the database has no such
  table.
\<close>

definition load_table :: "session_obj option \<Rightarrow> db_state \<Rightarrow> string \<Rightarrow> error + table_class option" where
  "load_table sess db nm =
     (case sess of
        None \<Rightarrow> Inl (AttributeError ''bind'')
      | Some s \<Rightarrow>
          (case db_tables db nm of
             Some cols \<Rightarrow>
               (case create_table_class (Table nm cols) of
                  Inl e \<Rightarrow> Inl e
                | Inr table_class \<Rightarrow> Inr (Some table_class))
           | None \<Rightarrow> Inr None))"

text \<open>
  \<^verbatim>\<open>
  def _get_default_define_f(record, name, primary_key_column_names, drivername):
      def define_table(metadata):
          columns = _columns_from_sample_record(
              record=record,
              primary_key_column_names=primary_key_column_names,
              drivername=drivername
          )
          return Table(name, metadata, *columns)
      return define_table
  \<close>
\<close>

definition get_default_define_f :: "row \<Rightarrow> string \<Rightarrow> string list \<Rightarrow> string \<Rightarrow> define_f" where
  "get_default_define_f rec nm pk_column_names drv =
     (\<lambda>metadata.
        case columns_from_sample_record rec pk_column_names drv of
          Inl e \<Rightarrow> Inl e
        | Inr columns \<Rightarrow> Inr (new_Table nm columns))"

text \<open>
  \<^verbatim>\<open>metadata.create_all()\<close> for the table the define function registered: a table the
  database already has is left alone, otherwise the server is asked to create it.
\<close>

definition create_all :: "engine \<Rightarrow> sqlalchemy_table \<Rightarrow> db_state \<Rightarrow> error + db_state" where
  "create_all eng t db =
     (if db_tables db (t_name t) \<noteq> None then Inr db
      else (case create_table_error (engine_backend eng) t of
              Some e \<Rightarrow> Inl e
            | None \<Rightarrow> Inr (db\<lparr> db_tables := (db_tables db)(t_name t \<mapsto> t_columns t) \<rparr>)))"

text \<open>
  \<^verbatim>\<open>
  def create_table(session, name, table_config, record):
      table_class = load_table(session, name)
      if not table_class and table_config.create_table_if_missing:
          define_table_f = (
              table_config.define_table_f or
              _get_default_define_f(
                  record=record,
                  name=name,
                  primary_key_column_names=table_config.primary_key_column_names,
                  drivername=session.bind.url.drivername,
              )
          )
          metadata = MetaData(bind=session.bind)
          sqlalchemy_table = define_table_f(metadata)
          metadata.create_all()
          table_class = create_table_class(sqlalchemy_table)
      return table_class
  \<close>
  A caller-supplied define function may raise, and may define a table of any name.
  The table is created before the class is made for it, so a defined table without a
  primary key is created in the database and then the class statement raises.
\<close>

definition create_table ::
  "session_obj option \<Rightarrow> db_state \<Rightarrow> string \<Rightarrow> TableConfiguration \<Rightarrow> row
     \<Rightarrow> (error + table_class option) \<times> db_state" where
  "create_table sess db nm table_config rec =
     (case load_table sess db nm of
        Inl e \<Rightarrow> (Inl e, db)
      | Inr table_class \<Rightarrow>
          (if table_class = None \<and> create_table_if_missing table_config then
             (case sess of
                None \<Rightarrow> (Inl (AttributeError ''bind''), db)
              | Some s \<Rightarrow>
                  (let define_f =
                         (case define_table_f table_config of
                            Some f \<Rightarrow> f
                          | None \<Rightarrow>
                              get_default_define_f rec nm
                                (primary_key_column_names table_config)
                                (drivername (engine_url (bind s))))
                   in case define_f (MetaData (bind s)) of
                        Inl e \<Rightarrow> (Inl e, db)
                      | Inr t \<Rightarrow>
                          (case create_all (bind s) t db of
                             Inl e \<Rightarrow> (Inl e, db)
                           | Inr db' \<Rightarrow>
                               (case create_table_class t of
                                  Inl e \<Rightarrow> (Inl e, db')
                                | Inr table_class \<Rightarrow> (Inr (Some table_class), db')))))
           else (Inr table_class, db)))"

section \<open>The connection manager\<close>

text \<open>
  The class \<^verbatim>\<open>SqlAlchemyDB\<close>: its configuration, the engine its session class is bound
  to, the current session (\<^verbatim>\<open>None\<close> until \<^verbatim>\<open>start_session\<close>) and the cache of
  table handles by name.
\<close>

record SqlAlchemyDB =
  source :: SourceConfiguration
  SessionClass :: engine
  session :: "session_obj option"
  name_to_table :: "string \<rightharpoonup> Table_handle"

definition SqlAlchemyDB_init :: "SourceConfiguration \<Rightarrow> backend \<Rightarrow> SqlAlchemyDB" where
  "SqlAlchemyDB_init source_config server =
     \<lparr> source = source_config,
       SessionClass = create_engine (url source_config) server,
       session = None,
       name_to_table = Map.empty \<rparr>"

text \<open>
  Every operation takes the manager and the database and returns its result (or the
  error it raises) together with the manager and the database as it leaves them.
\<close>

text \<open>
  \<^verbatim>\<open>
  def start_session(self):
      create_if_missing = self._source.create_if_missing
      database_is_missing = lambda: not database_exists(self._source.url)
      if create_if_missing and database_is_missing():
          create_database(self._source.url)
      self._session = self._SessionClass()

  def close_session(self):
      self._session.close()
      self._session = None
  \<close>
\<close>

definition start_session ::
  "SqlAlchemyDB \<Rightarrow> db_state \<Rightarrow> (error + unit) \<times> SqlAlchemyDB \<times> db_state" where
  "start_session m db =
     (if create_if_missing (source m) \<and> \<not> db_exists db then
        (case create_database_error (engine_backend (SessionClass m)) of
           Some e \<Rightarrow> (Inl e, m, db)
         | None \<Rightarrow>
             (Inr (), m\<lparr> session := Some \<lparr> bind = SessionClass m, calls = [] \<rparr> \<rparr>,
              db\<lparr> db_exists := True \<rparr>))
      else (Inr (), m\<lparr> session := Some \<lparr> bind = SessionClass m, calls = [] \<rparr> \<rparr>, db))"

definition close_session ::
  "SqlAlchemyDB \<Rightarrow> db_state \<Rightarrow> (error + unit) \<times> SqlAlchemyDB \<times> db_state" where
  "close_session m db =
     (case session m of
        None \<Rightarrow> (Inl (AttributeError ''close''), m, db)
      | Some s \<Rightarrow> (Inr (), m\<lparr> session := None \<rparr>, db))"

text \<open>
  \<^verbatim>\<open>
  def _get_create_insert_f(self, table_config):
      create_insert_f = table_config.create_insert_f
      if not create_insert_f:
          if 'postgresql' in self._source.url.drivername:
              create_insert_f = create_upsert_postgres
          elif 'mysql' in self._source.url.drivername:
              create_insert_f = create_upsert_mysql
          else:
              create_insert_f = create_insert
      return create_insert_f
  \<close>
\<close>

definition get_create_insert_f :: "SqlAlchemyDB \<Rightarrow> TableConfiguration \<Rightarrow> insert_f" where
  "get_create_insert_f m table_config =
     (case create_insert_f table_config of
        Some f \<Rightarrow> f
      | None \<Rightarrow>
          (if sublist ''postgresql'' (drivername (url (source m))) then create_upsert_postgres
           else if sublist ''mysql'' (drivername (url (source m))) then create_upsert_mysql
           else create_insert))"

type_synonym get_table_f =
  "session_obj option \<Rightarrow> db_state \<Rightarrow> string \<Rightarrow> (error + table_class option) \<times> db_state"

text \<open>
  \<^verbatim>\<open>
  def _get_table(self, name, get_table_f, **get_table_f_params):
      table_class = get_table_f(self._session, name, **get_table_f_params)
      if table_class:
          table = _Table(table_class=table_class, name=name)
      else:
          raise SqlAlchemyDbException('Failed to get table {}'.format(name))
      return table
  \<close>
\<close>

definition get_table ::
  "SqlAlchemyDB \<Rightarrow> db_state \<Rightarrow> string \<Rightarrow> get_table_f \<Rightarrow> (error + Table_handle) \<times> db_state" where
  "get_table m db nm get_table_f =
     (case get_table_f (session m) db nm of
        (Inl e, db') \<Rightarrow> (Inl e, db')
      | (Inr (Some table_class), db') \<Rightarrow> (Inr (Table_init table_class nm), db')
      | (Inr None, db') \<Rightarrow> (Inl (SqlAlchemyDbException (''Failed to get table '' @ nm)), db'))"

text \<open>
  \<^verbatim>\<open>
  def _open_table(self, name, get_table_f, **get_table_f_params):
      table = self._name_to_table.get(name, None)
      if not table:
          self._name_to_table[name] = (
              self._get_table(name, get_table_f, **get_table_f_params)
          )
          table = self._name_to_table[name]
      return table
  \<close>
  A \<^verbatim>\<open>_Table\<close> object is always truthy, so \<^verbatim>\<open>not table\<close> holds exactly when the cache
  has no entry. The assignment happens only when \<^verbatim>\<open>_get_table\<close> returns.
\<close>

definition open_table ::
  "SqlAlchemyDB \<Rightarrow> db_state \<Rightarrow> string \<Rightarrow> get_table_f
     \<Rightarrow> (error + Table_handle) \<times> SqlAlchemyDB \<times> db_state" where
  "open_table m db nm get_table_f =
     (case name_to_table m nm of
        Some t \<Rightarrow> (Inr t, m, db)
      | None \<Rightarrow>
          (case get_table m db nm get_table_f of
             (Inl e, db') \<Rightarrow> (Inl e, m, db')
           | (Inr t, db') \<Rightarrow> (Inr t, m\<lparr> name_to_table := (name_to_table m)(nm \<mapsto> t) \<rparr>, db')))"

definition open_table_for_read ::
  "SqlAlchemyDB \<Rightarrow> db_state \<Rightarrow> string \<Rightarrow> (error + Table_handle) \<times> SqlAlchemyDB \<times> db_state" where
  "open_table_for_read m db nm =
     open_table m db nm (\<lambda>sess d n. (load_table sess d n, d))"

definition open_table_for_write ::
  "SqlAlchemyDB \<Rightarrow> db_state \<Rightarrow> TableConfiguration \<Rightarrow> row
     \<Rightarrow> (error + Table_handle) \<times> SqlAlchemyDB \<times> db_state" where
  "open_table_for_write m db table_config rec =
     open_table m db (table_name table_config)
       (\<lambda>sess d n. create_table sess d n table_config rec)"

text \<open>
  \<^verbatim>\<open>
  def write_record(self, session, create_insert_f, record_dict):
      try:
          insert_stmt = create_insert_f(table=self._sqlalchemy_table, record=record_dict)
          session.execute(insert_stmt)
          session.commit()
      except:
          session.rollback()
          session.close()
          raise
  \<close>
  With no session, \<^verbatim>\<open>session.execute\<close> raises inside the \<^verbatim>\<open>try\<close> and
  \<^verbatim>\<open>session.rollback\<close> raises again inside the handler. An executed statement changes
  the stored rows when the commit succeeds; a rollback leaves them as they were.
\<close>

definition Table_write_record ::
  "Table_handle \<Rightarrow> session_obj option \<Rightarrow> insert_f \<Rightarrow> row \<Rightarrow> db_state
     \<Rightarrow> (error + unit) \<times> session_obj option \<times> db_state" where
  "Table_write_record t sess insert_f record_dict db =
     (case sess of
        None \<Rightarrow> (Inl (AttributeError ''rollback''), None, db)
      | Some s \<Rightarrow>
          (case insert_f (sqlalchemy_table t) record_dict of
             Inl e \<Rightarrow> (Inl e, Some (call s [Rollback, Close]), db)
           | Inr insert_stmt \<Rightarrow>
               (case execute_insert (engine_backend (bind s)) insert_stmt (db_rows db) of
                  Inl e \<Rightarrow> (Inl e, Some (call s [Execute insert_stmt, Rollback, Close]), db)
                | Inr rows' \<Rightarrow>
                    (case commit_error (engine_backend (bind s)) insert_stmt of
                       Some e \<Rightarrow>
                         (Inl e, Some (call s [Execute insert_stmt, Commit, Rollback, Close]), db)
                     | None \<Rightarrow>
                         (Inr (), Some (call s [Execute insert_stmt, Commit]),
                          db\<lparr> db_rows := rows' \<rparr>)))))"

text \<open>
  \<^verbatim>\<open>
  def write_record(self, table_config, record_dict):
      table = self._open_table_for_write(table_config, record_dict)
      table.write_record(
          session=self._session,
          create_insert_f=self._get_create_insert_f(table_config),
          record_dict=record_dict
      )
  \<close>
\<close>

definition write_record ::
  "SqlAlchemyDB \<Rightarrow> db_state \<Rightarrow> TableConfiguration \<Rightarrow> row
     \<Rightarrow> (error + unit) \<times> SqlAlchemyDB \<times> db_state" where
  "write_record m db table_config record_dict =
     (case open_table_for_write m db table_config record_dict of
        (Inl e, m', db') \<Rightarrow> (Inl e, m', db')
      | (Inr t, m', db') \<Rightarrow>
          (case Table_write_record t (session m') (get_create_insert_f m' table_config)
                  record_dict db' of
             (r, sess', db'') \<Rightarrow> (r, m'\<lparr> session := sess' \<rparr>, db'')))"

text \<open>
  \<^verbatim>\<open>
  def read(self, table_name):
      table = self._open_table_for_read(table_name)
      for record in table.records(self._session):
          yield record

  def records(self, session):          # of _Table
      for record in session.query(self._Class):
          yield self._from_db_record(record)
  \<close>
  \<^verbatim>\<open>read\<close> is a generator; the model is the result of consuming it to the end: the
  table is opened when the first row is asked for, then every stored row of the handle's
  table is projected on the handle's column names.
\<close>

definition records :: "Table_handle \<Rightarrow> session_obj \<Rightarrow> db_state \<Rightarrow> row list \<times> session_obj" where
  "records t s db =
     (map (from_db_record t) (db_rows db (t_name (table_of (Class t)))),
      call s [Query (table_of (Class t))])"

definition read ::
  "SqlAlchemyDB \<Rightarrow> db_state \<Rightarrow> string \<Rightarrow> (error + row list) \<times> SqlAlchemyDB \<times> db_state" where
  "read m db nm =
     (case open_table_for_read m db nm of
        (Inl e, m', db') \<Rightarrow> (Inl e, m', db')
      | (Inr t, m', db') \<Rightarrow>
          (case session m' of
             None \<Rightarrow> (Inl (AttributeError ''query''), m', db')
           | Some s \<Rightarrow>
               (case records t s db' of
                  (rows, s') \<Rightarrow> (Inr rows, m'\<lparr> session := Some s' \<rparr>, db'))))"

text \<open>A caller's sequence of operations on one manager, each run whatever the last returned.\<close>

datatype operation =
    StartSession
  | CloseSession
  | Read string
  | WriteRecord TableConfiguration row

fun run_operation :: "operation \<Rightarrow> SqlAlchemyDB \<times> db_state \<Rightarrow> SqlAlchemyDB \<times> db_state" where
  "run_operation StartSession (m, db) = snd (start_session m db)"
| "run_operation CloseSession (m, db) = snd (close_session m db)"
| "run_operation (Read nm) (m, db) = snd (read m db nm)"
| "run_operation (WriteRecord table_config rec) (m, db) = snd (write_record m db table_config rec)"

fun run_operations :: "operation list \<Rightarrow> SqlAlchemyDB \<times> db_state \<Rightarrow> SqlAlchemyDB \<times> db_state" where
  "run_operations [] st = st"
| "run_operations (op # ops) st = run_operations ops (run_operation op st)"

section \<open>Example data\<close>

text \<open>
  The row of the example scenario, a table configuration that names its primary key, one
  that does not, and a row whose keys collide with the synthetic key name.
\<close>

definition students_record :: row where
  "students_record = [(''id'', PyInt 3), (''name'', PyStr ''Jack3''), (''age'', PyInt 23)]"

definition id_clash_record :: row where
  "id_clash_record = [(''id'', PyInt 3), (''id_'', PyInt 4), (''name'', PyStr ''Jack3'')]"

text \<open>
  A server that accepts every request and stores an inserted row, a source configuration
  for a driver name, and the table configuration of the example scenario.
\<close>

definition accepting_server :: backend where
  "accepting_server =
     \<lparr> create_database_error = None,
       create_table_error = (\<lambda>t. None),
       execute_insert =
         (\<lambda>stmt rows.
            case stmt of
              Insert t r \<Rightarrow> Inr (rows(t_name t := rows (t_name t) @ [r]))
            | _ \<Rightarrow> Inl (DatabaseError ''statement not supported'')),
       commit_error = (\<lambda>stmt. None) \<rparr>"

definition source_for :: "string \<Rightarrow> SourceConfiguration" where
  "source_for drv = SourceConfiguration_init drv None None (Some ''test'') None None False"

definition students_config :: TableConfiguration where
  "students_config = TableConfiguration_init ''students'' None True (Some [''id'']) None"

text \<open>
  A database with no table, one that already has the \<^verbatim>\<open>students\<close> table of the
  read test, one whose only table has no primary key, a server that rejects every
  statement, and a manager on which \<^verbatim>\<open>start_session\<close> has been called.
\<close>

definition empty_database :: db_state where
  "empty_database = \<lparr> db_exists = True, db_tables = Map.empty, db_rows = (\<lambda>t. []) \<rparr>"

definition rejecting_server :: backend where
  "rejecting_server =
     accepting_server\<lparr> execute_insert := (\<lambda>stmt rows. Inl (DatabaseError ''constraint violation'')) \<rparr>"

definition keyless_database :: db_state where
  "keyless_database =
     \<lparr> db_exists = True,
       db_tables = [''log'' \<mapsto> [Column ''message'' String False]],
       db_rows = (\<lambda>t. []) \<rparr>"

definition started_manager :: "string \<Rightarrow> backend \<Rightarrow> SqlAlchemyDB" where
  "started_manager drv server =
     fst (snd (start_session (SqlAlchemyDB_init (source_for drv) server) empty_database))"

definition students_database :: db_state where
  "students_database =
     \<lparr> db_exists = True,
       db_tables = [''students'' \<mapsto>
          [Column ''id'' Integer True, Column ''name'' String False, Column ''age'' Integer False]],
       db_rows = (\<lambda>t. []) \<rparr>"

section \<open>Auxiliary facts\<close>

lemma infer_db_type_unfold:
  "infer_db_type val drv =
     (if isinstance_bool val then Boolean
      else if supports_add_1 val \<and> \<not> hasattr_len val then Float
      else if isinstance_datetime val then DateTime
      else if isinstance_date val then Date
      else if sublist ''postgresql'' drv \<or> sublist ''sqlite'' drv then String
      else String_n 100)"
  by (simp add: infer_db_type_def PYTHON_TO_DB_TYPE_def is_number_def does_support_varchar_def)

lemma infer_db_type_not_Integer: "infer_db_type val drv \<noteq> Integer"
  by (simp add: infer_db_type_unfold)

lemma pri_col_name_loop_char:
  "\<exists>k. pri_col_name_loop rec n = n @ replicate k (CHR ''_'')
     \<and> n @ replicate k (CHR ''_'') \<notin> set (keys rec)
     \<and> (\<forall>j<k. n @ replicate j (CHR ''_'') \<in> set (keys rec))"
proof (induction rec n rule: pri_col_name_loop.induct)
  case (1 rec n)
  show ?case
  proof (cases "n \<in> set (keys rec)")
    case False
    then have "pri_col_name_loop rec n = n" by (simp add: pri_col_name_loop.simps)
    with False show ?thesis by (intro exI [of _ 0]) simp
  next
    case True
    from "1" [OF True] obtain k where
      k: "pri_col_name_loop rec (n @ ''_'') = (n @ ''_'') @ replicate k (CHR ''_'')"
         "(n @ ''_'') @ replicate k (CHR ''_'') \<notin> set (keys rec)"
         "\<forall>j<k. (n @ ''_'') @ replicate j (CHR ''_'') \<in> set (keys rec)"
      by blast
    have step: "pri_col_name_loop rec n = pri_col_name_loop rec (n @ ''_'')"
      using True by (subst pri_col_name_loop.simps) simp
    have shift: "\<And>j. n @ replicate (Suc j) (CHR ''_'') = (n @ ''_'') @ replicate j (CHR ''_'')"
      by simp
    have "\<forall>j<Suc k. n @ replicate j (CHR ''_'') \<in> set (keys rec)"
    proof (intro allI impI)
      fix j assume "j < Suc k"
      show "n @ replicate j (CHR ''_'') \<in> set (keys rec)"
      proof (cases j)
        case 0
        with True show ?thesis by simp
      next
        case (Suc j')
        with \<open>j < Suc k\<close> k(3) have "(n @ ''_'') @ replicate j' (CHR ''_'') \<in> set (keys rec)"
          by simp
        with Suc show ?thesis by simp
      qed
    qed
    with k(1,2) step show ?thesis
      by (intro exI [of _ "Suc k"]) (simp only: shift, simp)
  qed
qed

lemma primary_key_columns_of_eq:
  "set pk \<subseteq> set (keys rec) \<Longrightarrow>
   primary_key_columns_of rec drv pk
     = Inr (map (\<lambda>col. Column col (infer_db_type (the (map_of rec col)) drv) True) pk)"
proof (induction pk)
  case Nil
  then show ?case by simp
next
  case (Cons col cols)
  from Cons.prems have "col \<in> fst ` set rec" by (simp add: keys_def)
  then obtain v where v: "map_of rec col = Some v"
    by (metis domD dom_map_of_conv_image_fst)
  with Cons show ?case by (simp add: getitem_def)
qed

lemma primary_key_columns_of_missing:
  "\<not> set pk \<subseteq> set (keys rec) \<Longrightarrow>
   \<exists>col. col \<in> set pk \<and> col \<notin> set (keys rec) \<and> primary_key_columns_of rec drv pk = Inl (KeyError col)"
proof (induction pk)
  case Nil
  then show ?case by simp
next
  case (Cons col cols)
  show ?case
  proof (cases "map_of rec col")
    case None
    then have "col \<notin> set (keys rec)" by (simp add: keys_def map_of_eq_None_iff)
    with None show ?thesis by (intro exI [of _ col]) (simp add: getitem_def)
  next
    case (Some v)
    then have "col \<in> set (keys rec)"
      by (metis keys_def domI dom_map_of_conv_image_fst set_map)
    with Cons.prems have "\<not> set cols \<subseteq> set (keys rec)" by simp
    from Cons.IH [OF this] obtain c where
      "c \<in> set cols" "c \<notin> set (keys rec)" "primary_key_columns_of rec drv cols = Inl (KeyError c)"
      by blast
    with Some show ?thesis by (intro exI [of _ c]) (simp add: getitem_def)
  qed
qed

lemma primary_key_columns_of_values:
  "set pk \<subseteq> set (keys rec) \<Longrightarrow>
   \<exists>vs. map (getitem rec) pk = map Inr vs
     \<and> primary_key_columns_of rec drv pk
         = Inr (map (\<lambda>(col, v). Column col (infer_db_type v drv) True) (zip pk vs))"
proof (induction pk)
  case Nil
  then show ?case by simp
next
  case (Cons col cols)
  then obtain vs where vs: "map (getitem rec) cols = map Inr vs"
      "primary_key_columns_of rec drv cols
         = Inr (map (\<lambda>(col, v). Column col (infer_db_type v drv) True) (zip cols vs))"
    by auto
  from Cons.prems have "col \<in> fst ` set rec" by (simp add: keys_def)
  then obtain v where v: "map_of rec col = Some v"
    by (metis domD dom_map_of_conv_image_fst)
  then have "getitem rec col = Inr v" by (simp add: getitem_def)
  with vs show ?case
    by (intro exI [of _ "v # vs"]) simp
qed

lemma load_table_absent:
  "db_tables db nm = None \<Longrightarrow> load_table (Some s) db nm = Inr None"
  by (simp add: load_table_def)

lemma load_table_present:
  "db_tables db nm = Some cols \<Longrightarrow> filter primary_key cols \<noteq> [] \<Longrightarrow>
   load_table (Some s) db nm = Inr (Some (TableClass (Table nm cols)))"
  by (simp add: load_table_def create_table_class_def)

lemma load_table_keyless:
  "db_tables db nm = Some cols \<Longrightarrow> filter primary_key cols = [] \<Longrightarrow>
   load_table (Some s) db nm = Inl ArgumentError"
  by (simp add: load_table_def create_table_class_def)

lemma open_table_cached:
  "name_to_table m nm = Some t \<Longrightarrow> open_table m db nm g = (Inr t, m, db)"
  by (simp add: open_table_def)

lemma open_table_failed:
  "open_table m db nm g = (Inl e, m', db') \<Longrightarrow> m' = m \<and> name_to_table m nm = None"
  by (auto simp: open_table_def split: option.splits prod.splits sum.splits)

lemma open_table_returned:
  "open_table m db nm g = (Inr t, m', db') \<Longrightarrow>
   name_to_table m' nm = Some t \<and> session m' = session m \<and> source m' = source m
   \<and> SessionClass m' = SessionClass m
   \<and> (\<forall>n h. name_to_table m n = Some h \<longrightarrow> name_to_table m' n = Some h)"
  by (auto simp: open_table_def split: option.splits prod.splits sum.splits)

lemma open_table_keeps:
  "name_to_table m n = Some h \<Longrightarrow> name_to_table (fst (snd (open_table m db nm g))) n = Some h"
  by (auto simp: open_table_def split: option.splits prod.splits sum.splits)

lemma start_session_keeps:
  "name_to_table (fst (snd (start_session m db))) = name_to_table m"
  by (simp add: start_session_def split: option.splits)

lemma close_session_keeps:
  "name_to_table (fst (snd (close_session m db))) = name_to_table m"
  by (simp add: close_session_def split: option.splits)

lemma read_keeps:
  "name_to_table m n = Some h \<Longrightarrow> name_to_table (fst (snd (read m db nm))) n = Some h"
  using open_table_keeps [of m n h db nm "\<lambda>sess d n. (load_table sess d n, d)"]
  by (auto simp: read_def open_table_for_read_def records_def split: prod.splits sum.splits option.splits)

lemma write_record_keeps:
  "name_to_table m n = Some h \<Longrightarrow> name_to_table (fst (snd (write_record m db tc rec))) n = Some h"
  using open_table_keeps [of m n h db "table_name tc" "\<lambda>sess d n. create_table sess d n tc rec"]
  by (auto simp: write_record_def open_table_for_write_def split: prod.splits sum.splits option.splits)

lemma run_operation_keeps:
  "name_to_table (fst st) n = Some h \<Longrightarrow> name_to_table (fst (run_operation op st)) n = Some h"
  by (cases op; cases st)
     (simp_all add: start_session_keeps close_session_keeps read_keeps write_record_keeps)

lemma run_operations_keeps:
  "name_to_table (fst st) n = Some h \<Longrightarrow> name_to_table (fst (run_operations ops st)) n = Some h"
  by (induction ops arbitrary: st) (simp_all add: run_operation_keeps)

lemma create_table_absent_no_create:
  "db_tables db nm = None \<Longrightarrow> \<not> create_table_if_missing tc \<Longrightarrow>
   create_table (Some s) db nm tc rec = (Inr None, db)"
  by (simp add: create_table_def load_table_absent)

lemma create_table_present:
  "db_tables db nm = Some cols \<Longrightarrow> filter primary_key cols \<noteq> [] \<Longrightarrow>
   create_table (Some s) db nm tc rec = (Inr (Some (TableClass (Table nm cols))), db)"
  by (simp add: create_table_def load_table_present)

lemma create_table_keyless:
  "db_tables db nm = Some cols \<Longrightarrow> filter primary_key cols = [] \<Longrightarrow>
   create_table (Some s) db nm tc rec = (Inl ArgumentError, db)"
  by (simp add: create_table_def load_table_keyless)

lemma replace_column_fresh:
  "col_name c \<notin> col_name ` set ds \<Longrightarrow> replace_column c ds = ds @ [c]"
  by (induction ds) auto

lemma replace_column_set: "set (replace_column c ds) \<subseteq> insert c (set ds)"
  by (induction ds) auto

lemma replace_column_names:
  "col_name ` set (replace_column c ds) = insert (col_name c) (col_name ` set ds)"
  by (induction ds) auto

lemma foldl_replace_column_distinct:
  "distinct (map col_name (added @ cols)) \<Longrightarrow>
   foldl (\<lambda>added c. replace_column c added) added cols = added @ cols"
proof (induction cols arbitrary: added)
  case Nil
  then show ?case by simp
next
  case (Cons c cols)
  then have fresh: "col_name c \<notin> col_name ` set added" by auto
  from Cons.prems have "distinct (map col_name ((added @ [c]) @ cols))" by simp
  from Cons.IH [OF this] fresh show ?case
    by (simp add: replace_column_fresh)
qed

lemma table_columns_distinct:
  "distinct (map col_name cols) \<Longrightarrow> table_columns cols = cols"
  using foldl_replace_column_distinct [of "[]" cols] by (simp add: table_columns_def)

lemma foldl_replace_column_set:
  "set (foldl (\<lambda>added c. replace_column c added) added cols) \<subseteq> set added \<union> set cols"
proof (induction cols arbitrary: added)
  case Nil
  then show ?case by simp
next
  case (Cons c cols)
  from Cons.IH [of "replace_column c added"] replace_column_set [of c added]
  show ?case by auto
qed

lemma foldl_replace_column_names:
  "col_name ` set (foldl (\<lambda>added c. replace_column c added) added cols)
     = col_name ` (set added \<union> set cols)"
proof (induction cols arbitrary: added)
  case Nil
  then show ?case by simp
next
  case (Cons c cols)
  from Cons.IH [of "replace_column c added"] replace_column_names [of c added]
  show ?case by auto
qed

lemma table_columns_keeps_key:
  assumes "c0 \<in> set cols"
    and "\<forall>c\<in>set cols. col_name c = col_name c0 \<longrightarrow> primary_key c"
  shows "filter primary_key (table_columns cols) \<noteq> []"
proof -
  from assms(1) have "col_name c0 \<in> col_name ` set (table_columns cols)"
    using foldl_replace_column_names [of "[]" cols] by (simp add: table_columns_def)
  then obtain d where d: "d \<in> set (table_columns cols)" "col_name d = col_name c0"
    by auto
  then have "d \<in> set cols"
    using foldl_replace_column_set [of "[]" cols] by (auto simp: table_columns_def)
  with d(2) assms(2) have "primary_key d" by blast
  with d(1) show ?thesis by (auto simp: filter_empty_conv)
qed

lemma columns_from_sample_record_key:
  assumes "columns_from_sample_record rec pk drv = Inr cols"
  shows "filter primary_key (table_columns cols) \<noteq> []"
proof (cases "pk = []")
  case True
  let ?n = "pri_col_name_loop rec ''id''"
  from True assms have cols: "cols = Column ?n Integer True #
      map (\<lambda>(col, v). Column col (infer_db_type v drv) False) rec"
    by (simp add: columns_from_sample_record_def)
  have fresh: "?n \<notin> set (keys rec)"
    using pri_col_name_loop_char [of rec "''id''"] by auto
  have "\<forall>c\<in>set cols. col_name c = col_name (Column ?n Integer True) \<longrightarrow> primary_key c"
    using fresh by (force simp: cols keys_def)
  moreover have "Column ?n Integer True \<in> set cols" by (simp add: cols)
  ultimately show ?thesis by (rule table_columns_keeps_key [rotated])
next
  case False
  with assms obtain pkc where pkc: "primary_key_columns_of rec drv pk = Inr pkc"
    and cols: "cols = pkc @ map (\<lambda>(col, v). Column col (infer_db_type v drv) False)
                    (filter (\<lambda>(col, v). col \<notin> set pk) rec)"
    by (auto simp: columns_from_sample_record_def split: sum.splits)
  have sub: "set pk \<subseteq> set (keys rec)"
    using pkc primary_key_columns_of_missing [of pk rec drv] by auto
  from primary_key_columns_of_eq [OF sub, of drv] pkc
  have pkc_eq: "pkc = map (\<lambda>col. Column col (infer_db_type (the (map_of rec col)) drv) True) pk"
    by simp
  from False obtain p ps where pk: "pk = p # ps" by (cases pk) auto
  let ?c0 = "Column p (infer_db_type (the (map_of rec p)) drv) True"
  have in_cols: "?c0 \<in> set cols" by (simp add: cols pkc_eq pk)
  have "\<forall>c\<in>set cols. col_name c = col_name ?c0 \<longrightarrow> primary_key c"
    by (auto simp: cols pkc_eq pk)
  with in_cols show ?thesis by (rule table_columns_keeps_key)
qed

lemmas example_defs =
  started_manager_def start_session_def SqlAlchemyDB_init_def source_for_def
  SourceConfiguration_init_def empty_database_def create_engine_def
  students_config_def TableConfiguration_init_def students_record_def
  accepting_server_def rejecting_server_def

lemmas operation_defs =
  write_record_def read_def open_table_for_write_def open_table_for_read_def open_table_def
  get_table_def create_table_def load_table_def get_default_define_f_def create_all_def
  columns_from_sample_record_def getitem_def Table_write_record_def get_create_insert_f_def
  create_insert_def create_table_class_def Table_init_def get_column_names_from_table_def
  call_def close_session_def records_def from_db_record_def new_Table_def table_columns_def

lemma Table_write_record_failed:
  "Table_write_record t (Some s) f rec db = (Inl e, sess', db') \<Longrightarrow>
   db' = db \<and> (\<exists>pre. sess' = Some (call s (pre @ [Rollback, Close]))
                  \<and> Rollback \<notin> set pre \<and> Close \<notin> set pre)"
proof -
  assume a: "Table_write_record t (Some s) f rec db = (Inl e, sess', db')"
  show ?thesis
  proof (cases "f (sqlalchemy_table t) rec")
    case (Inl e1)
    with a have "db' = db" "sess' = Some (call s ([] @ [Rollback, Close]))"
      by (simp_all add: Table_write_record_def)
    then show ?thesis by (intro conjI exI [of _ "[]"]) simp_all
  next
    case (Inr stmt)
    note stmt = this
    show ?thesis
    proof (cases "execute_insert (engine_backend (bind s)) stmt (db_rows db)")
      case (Inl e2)
      with a stmt have "db' = db" "sess' = Some (call s ([Execute stmt] @ [Rollback, Close]))"
        by (simp_all add: Table_write_record_def)
      then show ?thesis by (intro conjI exI [of _ "[Execute stmt]"]) simp_all
    next
      case (Inr rows')
      note rows = this
      show ?thesis
      proof (cases "commit_error (engine_backend (bind s)) stmt")
        case None
        with a stmt rows show ?thesis by (simp add: Table_write_record_def)
      next
        case (Some e3)
        with a stmt rows
        have "db' = db" "sess' = Some (call s ([Execute stmt, Commit] @ [Rollback, Close]))"
          by (simp_all add: Table_write_record_def)
        then show ?thesis by (intro conjI exI [of _ "[Execute stmt, Commit]"]) simp_all
      qed
    qed
  qed
qed

section \<open>Type inference\<close>

text \<open>
  C3. For every sample value and driver name, \<open>infer_db_type\<close> applies its rules
  first-match-wins in the order boolean, numeric (adding 1 does not raise and there is no
  \<^verbatim>\<open>__len__\<close>), timestamp, date; when no rule matches the result is the text type
  without a length when the driver name contains \<^verbatim>\<open>postgresql\<close> or \<^verbatim>\<open>sqlite\<close>, and
  the text type of length 100 otherwise.
\<close>

theorem infer_db_type_first_match_wins:
  "infer_db_type val drv =
     (if isinstance_bool val then Boolean
      else if supports_add_1 val \<and> \<not> hasattr_len val then Float
      else if isinstance_datetime val then DateTime
      else if isinstance_date val then Date
      else if sublist ''postgresql'' drv \<or> sublist ''sqlite'' drv then String
      else String_n 100)"
  by (simp add: infer_db_type_def PYTHON_TO_DB_TYPE_def is_number_def does_support_varchar_def)

theorem infer_db_type_first_match_wins_witness:
  "infer_db_type (PyBool True) ''mysql+pymysql'' = Boolean
   \<and> infer_db_type (PyInt 23) ''mysql+pymysql'' = Float
   \<and> infer_db_type (PyDatetime 2019 1 31 12 0 0) ''mysql+pymysql'' = DateTime
   \<and> infer_db_type (PyDate 2019 1 31) ''mysql+pymysql'' = Date
   \<and> infer_db_type (PyStr ''Jack3'') ''postgresql+pg8000'' = String
   \<and> infer_db_type (PyStr ''Jack3'') ''sqlite'' = String
   \<and> infer_db_type (PyObject True True OtherClass) ''sqlite'' = String
   \<and> infer_db_type (PyStr ''Jack3'') ''mysql+pymysql'' = String_n 100
   \<and> infer_db_type (PyObject True False DatetimeClass) ''sqlite'' = Float
   \<and> infer_db_type (PyObject False False DatetimeClass) ''sqlite'' = DateTime"
  using infer_db_type_first_match_wins [of "PyBool True" "''mysql+pymysql''"]
    infer_db_type_first_match_wins [of "PyObject True False DatetimeClass" "''sqlite''"]
    infer_db_type_first_match_wins [of "PyObject False False DatetimeClass" "''sqlite''"]
    infer_db_type_first_match_wins [of "PyInt 23" "''mysql+pymysql''"]
    infer_db_type_first_match_wins [of "PyDatetime 2019 1 31 12 0 0" "''mysql+pymysql''"]
    infer_db_type_first_match_wins [of "PyDate 2019 1 31" "''mysql+pymysql''"]
    infer_db_type_first_match_wins [of "PyStr ''Jack3''" "''postgresql+pg8000''"]
    infer_db_type_first_match_wins [of "PyStr ''Jack3''" "''sqlite''"]
    infer_db_type_first_match_wins [of "PyObject True True OtherClass" "''sqlite''"]
    infer_db_type_first_match_wins [of "PyStr ''Jack3''" "''mysql+pymysql''"]
  by (simp add: sublist_code)

text \<open>
  C10. A value that is not a boolean, supports adding 1 and has no length is inferred as
  \<open>Float\<close>; so is every Python \<^verbatim>\<open>int\<close>. Inference never yields \<open>Integer\<close>, and
  a column of type \<open>Integer\<close> among the columns derived from a sample record can only be
  the synthetic primary-key column, which is there only when no primary-key names are
  configured.
\<close>

theorem numbers_are_Float_Integer_only_synthetic:
  "(\<not> isinstance_bool val \<and> supports_add_1 val \<and> \<not> hasattr_len val
      \<longrightarrow> infer_db_type val drv = Float)
   \<and> infer_db_type (PyInt i) drv = Float
   \<and> infer_db_type val drv \<noteq> Integer
   \<and> (columns_from_sample_record rec pk drv = Inr cols \<and> n < length cols
        \<and> col_type (cols ! n) = Integer
      \<longrightarrow> pk = [] \<and> n = 0
          \<and> cols ! n = Column (pri_col_name_loop rec ''id'') Integer True)"
proof (intro conjI impI)
  assume "\<not> isinstance_bool val \<and> supports_add_1 val \<and> \<not> hasattr_len val"
  then show "infer_db_type val drv = Float" by (simp add: infer_db_type_unfold)
next
  show "infer_db_type (PyInt i) drv = Float" by (simp add: infer_db_type_unfold)
next
  show "infer_db_type val drv \<noteq> Integer" by (rule infer_db_type_not_Integer)
next
  assume a: "columns_from_sample_record rec pk drv = Inr cols \<and> n < length cols
        \<and> col_type (cols ! n) = Integer"
  have inferred: "\<And>f xs c. c \<in> set (map (\<lambda>(col, v). Column col (infer_db_type v drv) f) xs)
      \<Longrightarrow> col_type c \<noteq> Integer"
    by (auto simp: infer_db_type_not_Integer)
  have cn: "cols ! n \<in> set cols" using a by simp
  show "pk = []"
  proof (rule ccontr)
    assume ne: "pk \<noteq> []"
    with a obtain pkc where pkc: "primary_key_columns_of rec drv pk = Inr pkc"
      and cols: "cols = pkc @ map (\<lambda>(col, v). Column col (infer_db_type v drv) False)
                      (filter (\<lambda>(col, v). col \<notin> set pk) rec)"
      by (auto simp: columns_from_sample_record_def split: sum.splits)
    have "set pk \<subseteq> set (keys rec)"
      using pkc primary_key_columns_of_missing [of pk rec drv] by auto
    from primary_key_columns_of_eq [OF this, of drv] pkc
    have "\<forall>c\<in>set pkc. col_type c \<noteq> Integer"
      by (auto simp: infer_db_type_not_Integer)
    with cols inferred have "\<forall>c\<in>set cols. col_type c \<noteq> Integer"
      by auto
    with cn a show False by blast
  qed
  then have cols: "cols = Column (pri_col_name_loop rec ''id'') Integer True #
      map (\<lambda>(col, v). Column col (infer_db_type v drv) False) rec"
    using a by (simp add: columns_from_sample_record_def)
  show "n = 0"
  proof (rule ccontr)
    assume "n \<noteq> 0"
    then obtain k where k: "n = Suc k" by (cases n) auto
    with a cols have "cols ! n \<in> set (map (\<lambda>(col, v). Column col (infer_db_type v drv) False) rec)"
      by (metis length_Cons Suc_less_eq nth_Cons_Suc nth_mem)
    with inferred a show False by blast
  qed
  with cols show "cols ! n = Column (pri_col_name_loop rec ''id'') Integer True" by simp
qed


theorem numbers_are_Float_Integer_only_synthetic_witness:
  "infer_db_type (PyObject True False OtherClass) ''sqlite'' = Float
   \<and> columns_from_sample_record students_record [] ''sqlite''
       = Inr [Column ''id_'' Integer True, Column ''id'' Float False,
              Column ''name'' String False, Column ''age'' Float False]
   \<and> [Column ''id_'' Integer True, Column ''id'' Float False,
        Column ''name'' String False, Column ''age'' Float False] ! 0
       = Column (pri_col_name_loop students_record ''id'') Integer True"
proof -
  let ?cols = "[Column ''id_'' Integer True, Column ''id'' Float False,
                Column ''name'' String False, Column ''age'' Float False]"
  have h1: "\<not> isinstance_bool (PyObject True False OtherClass) \<and> supports_add_1 (PyObject True False OtherClass)
            \<and> \<not> hasattr_len (PyObject True False OtherClass)"
    by simp
  have h2: "columns_from_sample_record students_record [] ''sqlite'' = Inr ?cols
            \<and> 0 < length ?cols \<and> col_type (?cols ! 0) = Integer"
    by (simp add: columns_from_sample_record_def students_record_def pri_col_name_loop.simps
          keys_def infer_db_type_unfold sublist_code)
  show ?thesis
    using numbers_are_Float_Integer_only_synthetic
            [of "PyObject True False OtherClass" "''sqlite''" 23 students_record "[]" ?cols 0] h1 h2
    by simp
qed

section \<open>Columns of a created table\<close>

text \<open>
  C4. When a table is created from a sample row: if the configured primary-key name list
  is not empty (and the sample has a value for each name), the columns are exactly those
  names as primary-key columns, typed by inference from the sample's values, followed by
  every remaining sample key as an ordinary inferred column; a name missing from the
  sample raises \<^verbatim>\<open>KeyError\<close> and no column list is produced. If the list is empty, the
  columns are one synthetic \<open>Integer\<close> primary-key column named \<^verbatim>\<open>id\<close> followed by
  the least number of underscores for which the name is no sample key, and then every
  sample key as an ordinary inferred column.
\<close>

theorem columns_from_sample_record_shape:
  "(pk \<noteq> [] \<and> set pk \<subseteq> set (keys rec) \<longrightarrow>
      (\<exists>vs. map (getitem rec) pk = map Inr vs
         \<and> columns_from_sample_record rec pk drv =
             Inr (map (\<lambda>(col, v). Column col (infer_db_type v drv) True) (zip pk vs) @
                  map (\<lambda>(col, v). Column col (infer_db_type v drv) False)
                      (filter (\<lambda>(col, v). col \<notin> set pk) rec))))
   \<and> (pk \<noteq> [] \<and> \<not> set pk \<subseteq> set (keys rec) \<longrightarrow>
      (\<exists>col. col \<in> set pk \<and> col \<notin> set (keys rec)
         \<and> columns_from_sample_record rec pk drv = Inl (KeyError col)))
   \<and> (pk = [] \<longrightarrow>
      (\<exists>k. columns_from_sample_record rec pk drv =
             Inr (Column (''id'' @ replicate k (CHR ''_'')) Integer True #
                  map (\<lambda>(col, v). Column col (infer_db_type v drv) False) rec)
         \<and> ''id'' @ replicate k (CHR ''_'') \<notin> set (keys rec)
         \<and> (\<forall>j<k. ''id'' @ replicate j (CHR ''_'') \<in> set (keys rec))))
   \<and> (columns_from_sample_record rec pk drv = Inr cols \<longrightarrow>
        map col_name (filter primary_key cols)
          = (if pk = [] then [pri_col_name_loop rec ''id''] else pk)
      \<and> map col_name (filter (\<lambda>c. \<not> primary_key c) cols)
          = filter (\<lambda>col. col \<notin> set pk) (keys rec))"
proof -
  have p1: "\<exists>vs. map (getitem rec) pk = map Inr vs
         \<and> columns_from_sample_record rec pk drv =
             Inr (map (\<lambda>(col, v). Column col (infer_db_type v drv) True) (zip pk vs) @
                  map (\<lambda>(col, v). Column col (infer_db_type v drv) False)
                      (filter (\<lambda>(col, v). col \<notin> set pk) rec))"
    if a: "pk \<noteq> [] \<and> set pk \<subseteq> set (keys rec)"
  proof -
    from a obtain vs where vs: "map (getitem rec) pk = map Inr vs"
      "primary_key_columns_of rec drv pk
         = Inr (map (\<lambda>(col, v). Column col (infer_db_type v drv) True) (zip pk vs))"
      using primary_key_columns_of_values [of pk rec drv] by blast
    with a show ?thesis
      by (intro exI [of _ vs]) (simp add: columns_from_sample_record_def)
  qed
  have p2: "\<exists>col. col \<in> set pk \<and> col \<notin> set (keys rec)
         \<and> columns_from_sample_record rec pk drv = Inl (KeyError col)"
    if a: "pk \<noteq> [] \<and> \<not> set pk \<subseteq> set (keys rec)"
  proof -
    from a obtain col where "col \<in> set pk" "col \<notin> set (keys rec)"
      "primary_key_columns_of rec drv pk = Inl (KeyError col)"
      using primary_key_columns_of_missing [of pk rec drv] by blast
    with a show ?thesis
      by (intro exI [of _ col]) (simp add: columns_from_sample_record_def)
  qed
  have p3: "\<exists>k. columns_from_sample_record rec pk drv =
             Inr (Column (''id'' @ replicate k (CHR ''_'')) Integer True #
                  map (\<lambda>(col, v). Column col (infer_db_type v drv) False) rec)
         \<and> ''id'' @ replicate k (CHR ''_'') \<notin> set (keys rec)
         \<and> (\<forall>j<k. ''id'' @ replicate j (CHR ''_'') \<in> set (keys rec))"
    if a: "pk = []"
  proof -
    obtain k where k: "pri_col_name_loop rec ''id'' = ''id'' @ replicate k (CHR ''_'')"
        "''id'' @ replicate k (CHR ''_'') \<notin> set (keys rec)"
        "\<forall>j<k. ''id'' @ replicate j (CHR ''_'') \<in> set (keys rec)"
      using pri_col_name_loop_char [of rec "''id''"] by blast
    have "columns_from_sample_record rec pk drv =
               Inr (Column (''id'' @ replicate k (CHR ''_'')) Integer True #
                    map (\<lambda>(col, v). Column col (infer_db_type v drv) False) rec)"
      using a k(1) by (simp add: columns_from_sample_record_def)
    with k(2,3) show ?thesis by blast
  qed
  have p4: "map col_name (filter primary_key cols)
          = (if pk = [] then [pri_col_name_loop rec ''id''] else pk)
      \<and> map col_name (filter (\<lambda>c. \<not> primary_key c) cols)
          = filter (\<lambda>col. col \<notin> set pk) (keys rec)"
    if r: "columns_from_sample_record rec pk drv = Inr cols"
  proof -
    have ord_pk: "\<And>xs. filter primary_key
        (map (\<lambda>(col, v). Column col (infer_db_type v drv) False) xs) = []"
      by (auto simp: filter_empty_conv)
    have ord_all: "\<And>xs. filter (\<lambda>c. \<not> primary_key c)
        (map (\<lambda>(col, v). Column col (infer_db_type v drv) False) xs)
      = map (\<lambda>(col, v). Column col (infer_db_type v drv) False) xs"
      by (auto simp: filter_id_conv)
    have names: "\<And>xs. map col_name
        (map (\<lambda>(col, v). Column col (infer_db_type v drv) False) xs) = map fst xs"
      by (auto simp: comp_def split_def)
    have keep: "map fst (filter (\<lambda>(col, v). col \<notin> set pk) rec)
        = filter (\<lambda>col. col \<notin> set pk) (keys rec)"
      by (induction rec) (auto simp: keys_def)
    show ?thesis
    proof (cases "pk = []")
      case True
      with r have "cols = Column (pri_col_name_loop rec ''id'') Integer True #
                    map (\<lambda>(col, v). Column col (infer_db_type v drv) False) rec"
        by (simp add: columns_from_sample_record_def)
      with True show ?thesis
        by (simp add: ord_pk ord_all names keys_def del: map_map)
    next
      case False
      with r obtain pkc where pkc: "primary_key_columns_of rec drv pk = Inr pkc"
        and cols: "cols = pkc @ map (\<lambda>(col, v). Column col (infer_db_type v drv) False)
                        (filter (\<lambda>(col, v). col \<notin> set pk) rec)"
        by (auto simp: columns_from_sample_record_def split: sum.splits)
      have sub: "set pk \<subseteq> set (keys rec)"
        using pkc primary_key_columns_of_missing [of pk rec drv] by auto
      from primary_key_columns_of_eq [OF sub, of drv] pkc
      have pkc_eq: "pkc = map (\<lambda>col. Column col (infer_db_type (the (map_of rec col)) drv) True) pk"
        by simp
      have "filter primary_key pkc = pkc" "filter (\<lambda>c. \<not> primary_key c) pkc = []"
        "map col_name pkc = pk"
        by (simp_all add: pkc_eq filter_id_conv filter_empty_conv comp_def)
      with False show ?thesis
        by (simp add: cols ord_pk ord_all names keep del: map_map)
    qed
  qed
  from p1 p2 p3 p4 show ?thesis by blast
qed

theorem columns_from_sample_record_shape_witness:
  "columns_from_sample_record students_record [''id''] ''sqlite''
     = Inr [Column ''id'' Float True, Column ''name'' String False, Column ''age'' Float False]
   \<and> columns_from_sample_record id_clash_record [] ''sqlite''
     = Inr [Column ''id__'' Integer True, Column ''id'' Float False,
            Column ''id_'' Float False, Column ''name'' String False]
   \<and> columns_from_sample_record students_record [''key''] ''sqlite'' = Inl (KeyError ''key'')
   \<and> map col_name (filter primary_key
        [Column ''id'' Float True, Column ''name'' String False, Column ''age'' Float False])
       = [''id'']
   \<and> map col_name (filter (\<lambda>c. \<not> primary_key c)
        [Column ''id__'' Integer True, Column ''id'' Float False,
            Column ''id_'' Float False, Column ''name'' String False])
       = keys id_clash_record"
proof -
  have e1: "columns_from_sample_record students_record [''id''] ''sqlite''
     = Inr [Column ''id'' Float True, Column ''name'' String False, Column ''age'' Float False]"
    by (simp add: columns_from_sample_record_def students_record_def getitem_def
          infer_db_type_unfold sublist_code)
  have e2: "columns_from_sample_record id_clash_record [] ''sqlite''
     = Inr [Column ''id__'' Integer True, Column ''id'' Float False,
            Column ''id_'' Float False, Column ''name'' String False]"
    by (simp add: columns_from_sample_record_def id_clash_record_def pri_col_name_loop.simps
          keys_def infer_db_type_unfold sublist_code)
  have h3: "[''key''] \<noteq> [] \<and> \<not> set [''key''] \<subseteq> set (keys students_record)"
    by (simp add: students_record_def keys_def)
  show ?thesis
    using e1 e2 h3
      columns_from_sample_record_shape [of "[''id'']" students_record "''sqlite''"
        "[Column ''id'' Float True, Column ''name'' String False, Column ''age'' Float False]"]
      columns_from_sample_record_shape [of "[]" id_clash_record "''sqlite''"
        "[Column ''id__'' Integer True, Column ''id'' Float False,
            Column ''id_'' Float False, Column ''name'' String False]"]
      columns_from_sample_record_shape [of "[''key'']" students_record "''sqlite''"]
    by auto
qed

section \<open>Selecting the insert builder\<close>

text \<open>
  C5. A builder supplied on the table configuration is the one used; without one, a driver
  name containing \<^verbatim>\<open>postgresql\<close> selects the PostgreSQL upsert, otherwise one
  containing \<^verbatim>\<open>mysql\<close> selects the MySQL upsert, and every other driver name
  selects the plain insert.
\<close>

theorem get_create_insert_f_selection:
  "(create_insert_f table_config = Some f \<longrightarrow> get_create_insert_f m table_config = f)
   \<and> (create_insert_f table_config = None
        \<and> sublist ''postgresql'' (drivername (url (source m)))
      \<longrightarrow> get_create_insert_f m table_config = create_upsert_postgres)
   \<and> (create_insert_f table_config = None
        \<and> \<not> sublist ''postgresql'' (drivername (url (source m)))
        \<and> sublist ''mysql'' (drivername (url (source m)))
      \<longrightarrow> get_create_insert_f m table_config = create_upsert_mysql)
   \<and> (create_insert_f table_config = None
        \<and> \<not> sublist ''postgresql'' (drivername (url (source m)))
        \<and> \<not> sublist ''mysql'' (drivername (url (source m)))
      \<longrightarrow> get_create_insert_f m table_config = create_insert)"
  by (simp add: get_create_insert_f_def)

theorem get_create_insert_f_selection_witness:
  "get_create_insert_f (SqlAlchemyDB_init (source_for ''postgresql+pg8000'') accepting_server)
       (students_config\<lparr> create_insert_f := Some create_insert \<rparr>) = create_insert
   \<and> get_create_insert_f (SqlAlchemyDB_init (source_for ''postgresql+pg8000'') accepting_server)
       students_config = create_upsert_postgres
   \<and> get_create_insert_f (SqlAlchemyDB_init (source_for ''mysql+pymysql'') accepting_server)
       students_config = create_upsert_mysql
   \<and> get_create_insert_f (SqlAlchemyDB_init (source_for ''sqlite'') accepting_server)
       students_config = create_insert"
  using
    get_create_insert_f_selection
      [of "students_config\<lparr> create_insert_f := Some create_insert \<rparr>" create_insert
          "SqlAlchemyDB_init (source_for ''postgresql+pg8000'') accepting_server"]
    get_create_insert_f_selection
      [of students_config create_insert
          "SqlAlchemyDB_init (source_for ''postgresql+pg8000'') accepting_server"]
    get_create_insert_f_selection
      [of students_config create_insert
          "SqlAlchemyDB_init (source_for ''mysql+pymysql'') accepting_server"]
    get_create_insert_f_selection
      [of students_config create_insert
          "SqlAlchemyDB_init (source_for ''sqlite'') accepting_server"]
  by (simp add: students_config_def TableConfiguration_init_def SqlAlchemyDB_init_def
        source_for_def SourceConfiguration_init_def sublist_code)

section \<open>Resolving a table\<close>

text \<open>
  C6. For a write on a started session whose target table the database does not have and
  whose configuration has create-if-missing false, \<open>create_table\<close> returns no table
  and creates none, \<open>get_table\<close> raises \<^verbatim>\<open>SqlAlchemyDbException\<close> with the message
  \<^verbatim>\<open>Failed to get table <name>\<close>, and (the name having no cached handle to reuse)
  \<open>write_record\<close> raises that error and leaves the manager and the database as they
  were.
\<close>

theorem write_absent_table_without_create_fails:
  assumes "session m = Some s"
    and "db_tables db (table_name tc) = None"
    and "\<not> create_table_if_missing tc"
  shows "create_table (session m) db (table_name tc) tc rec = (Inr None, db)
    \<and> get_table m db (table_name tc) (\<lambda>sess d n. create_table sess d n tc rec)
        = (Inl (SqlAlchemyDbException (''Failed to get table '' @ table_name tc)), db)
    \<and> (name_to_table m (table_name tc) = None \<longrightarrow>
         open_table_for_write m db tc rec
           = (Inl (SqlAlchemyDbException (''Failed to get table '' @ table_name tc)), m, db)
       \<and> write_record m db tc rec
           = (Inl (SqlAlchemyDbException (''Failed to get table '' @ table_name tc)), m, db))"
proof -
  have c: "create_table (session m) db (table_name tc) tc rec = (Inr None, db)"
    using assms by (simp add: create_table_absent_no_create)
  then have g: "get_table m db (table_name tc) (\<lambda>sess d n. create_table sess d n tc rec)
        = (Inl (SqlAlchemyDbException (''Failed to get table '' @ table_name tc)), db)"
    by (simp add: get_table_def)
  have "open_table_for_write m db tc rec
           = (Inl (SqlAlchemyDbException (''Failed to get table '' @ table_name tc)), m, db)
       \<and> write_record m db tc rec
           = (Inl (SqlAlchemyDbException (''Failed to get table '' @ table_name tc)), m, db)"
    if "name_to_table m (table_name tc) = None"
    using that g by (simp add: write_record_def open_table_for_write_def open_table_def)
  with c g show ?thesis by blast
qed

theorem write_absent_table_without_create_fails_witness:
  "write_record (started_manager ''sqlite'' accepting_server) empty_database
       (students_config\<lparr> create_table_if_missing := False \<rparr>) students_record
     = (Inl (SqlAlchemyDbException ''Failed to get table students''),
        started_manager ''sqlite'' accepting_server, empty_database)"
proof -
  have h1: "session (started_manager ''sqlite'' accepting_server)
      = Some \<lparr> bind = create_engine (url (source_for ''sqlite'')) accepting_server, calls = [] \<rparr>"
    by (simp add: started_manager_def start_session_def SqlAlchemyDB_init_def source_for_def
          SourceConfiguration_init_def)
  have h2: "db_tables empty_database
      (table_name (students_config\<lparr> create_table_if_missing := False \<rparr>)) = None"
    by (simp add: empty_database_def)
  have h3: "\<not> create_table_if_missing (students_config\<lparr> create_table_if_missing := False \<rparr>)"
    by simp
  have h4: "name_to_table (started_manager ''sqlite'' accepting_server)
      (table_name (students_config\<lparr> create_table_if_missing := False \<rparr>)) = None"
    by (simp add: started_manager_def start_session_def SqlAlchemyDB_init_def source_for_def
          SourceConfiguration_init_def)
  have nm: "table_name (students_config\<lparr> create_table_if_missing := False \<rparr>) = ''students''"
    by (simp add: students_config_def TableConfiguration_init_def)
  from write_absent_table_without_create_fails [OF h1 h2 h3, of students_record] h4
  show ?thesis by (simp add: nm)
qed

text \<open>
  C7. For a read on a started session of a table name the database does not have,
  \<open>get_table\<close> with \<open>load_table\<close> raises \<^verbatim>\<open>SqlAlchemyDbException\<close> naming the
  table, and (the name having no cached handle to reuse) so does \<open>read\<close>, leaving the
  manager and the database as they were. No read, of any name in any state, changes the
  database, and the only call a read makes on the session is the query.
\<close>

theorem read_absent_table_fails_and_read_never_writes:
  assumes "session m = Some s"
    and "db_tables db nm = None"
  shows "get_table m db nm (\<lambda>sess d n. (load_table sess d n, d))
        = (Inl (SqlAlchemyDbException (''Failed to get table '' @ nm)), db)
    \<and> (name_to_table m nm = None \<longrightarrow>
         read m db nm = (Inl (SqlAlchemyDbException (''Failed to get table '' @ nm)), m, db))
    \<and> snd (snd (read m' db' nm')) = db'
    \<and> (session (fst (snd (read m' db' nm'))) = session m'
        \<or> (\<exists>s' t. session m' = Some s'
              \<and> session (fst (snd (read m' db' nm'))) = Some (call s' [Query t])))"
proof -
  have g: "get_table m db nm (\<lambda>sess d n. (load_table sess d n, d))
        = (Inl (SqlAlchemyDbException (''Failed to get table '' @ nm)), db)"
    using assms by (simp add: get_table_def load_table_absent)
  have r: "read m db nm = (Inl (SqlAlchemyDbException (''Failed to get table '' @ nm)), m, db)"
    if "name_to_table m nm = None"
    using that g by (simp add: read_def open_table_for_read_def open_table_def)
  have gd: "snd (get_table m' db' nm' (\<lambda>sess d n. (load_table sess d n, d))) = db'"
    by (simp add: get_table_def split: sum.splits option.splits)
  have od: "snd (snd (open_table_for_read m' db' nm')) = db'
      \<and> session (fst (snd (open_table_for_read m' db' nm'))) = session m'"
    using gd by (auto simp: open_table_for_read_def open_table_def
        split: option.splits prod.splits sum.splits)
  have d: "snd (snd (read m' db' nm')) = db'"
    using od by (auto simp: read_def records_def split: option.splits prod.splits sum.splits)
  have q: "session (fst (snd (read m' db' nm'))) = session m'
        \<or> (\<exists>s' t. session m' = Some s'
              \<and> session (fst (snd (read m' db' nm'))) = Some (call s' [Query t]))"
  proof (cases "open_table_for_read m' db' nm'")
    case (fields res m2 db2)
    with od have s2: "session m2 = session m'" by simp
    show ?thesis
    proof (cases res)
      case (Inl e)
      with fields s2 show ?thesis by (simp add: read_def)
    next
      case (Inr t)
      show ?thesis
      proof (cases "session m'")
        case None
        with fields Inr s2 show ?thesis by (simp add: read_def)
      next
        case (Some s')
        with fields Inr s2
        have "session (fst (snd (read m' db' nm'))) = Some (call s' [Query (table_of (Class t))])"
          by (simp add: read_def records_def)
        with Some show ?thesis by blast
      qed
    qed
  qed
  from g r d q show ?thesis by blast
qed

theorem read_absent_table_fails_and_read_never_writes_witness:
  "read (started_manager ''sqlite'' accepting_server) empty_database ''students''
     = (Inl (SqlAlchemyDbException ''Failed to get table students''),
        started_manager ''sqlite'' accepting_server, empty_database)"
proof -
  have h1: "session (started_manager ''sqlite'' accepting_server)
      = Some \<lparr> bind = create_engine (url (source_for ''sqlite'')) accepting_server, calls = [] \<rparr>"
    by (simp add: started_manager_def start_session_def SqlAlchemyDB_init_def source_for_def
          SourceConfiguration_init_def)
  have h2: "db_tables empty_database ''students'' = None"
    by (simp add: empty_database_def)
  have h4: "name_to_table (started_manager ''sqlite'' accepting_server) ''students'' = None"
    by (simp add: started_manager_def start_session_def SqlAlchemyDB_init_def source_for_def
          SourceConfiguration_init_def)
  from read_absent_table_fails_and_read_never_writes [OF h1 h2] h4
  show ?thesis by simp
qed

text \<open>
  C8 (amended). For a write on a started session against a table the database already
  has, with at least one primary-key column: \<open>create_table\<close> returns the class of the
  table as the database has it, \<open>get_table\<close> returns the handle of that table, and
  opening the table for write (no handle being cached yet) returns that handle, caches
  it and leaves the database unchanged; all this for every sample row and every
  configuration, whatever its create-if-missing flag, so nothing of the row is checked
  against the table. For an existing table with no primary-key column, making the class
  raises \<^verbatim>\<open>ArgumentError\<close> and so do \<open>create_table\<close> and \<open>get_table\<close>, the
  database again unchanged.
\<close>

theorem write_existing_table_returns_it_unchecked:
  assumes "session m = Some s"
    and "db_tables db nm = Some cols"
  shows "(filter primary_key cols \<noteq> [] \<longrightarrow>
        create_table (session m) db nm tc rec = (Inr (Some (TableClass (Table nm cols))), db)
      \<and> get_table m db nm (\<lambda>sess d n. create_table sess d n tc rec)
          = (Inr \<lparr> Class = TableClass (Table nm cols), sqlalchemy_table = Table nm cols,
                   handle_name = nm, column_names = map col_name cols \<rparr>, db)
      \<and> (name_to_table m nm = None \<and> table_name tc = nm \<longrightarrow>
            open_table_for_write m db tc rec
              = (Inr \<lparr> Class = TableClass (Table nm cols), sqlalchemy_table = Table nm cols,
                       handle_name = nm, column_names = map col_name cols \<rparr>,
                 m\<lparr> name_to_table := (name_to_table m)(nm \<mapsto>
                      \<lparr> Class = TableClass (Table nm cols), sqlalchemy_table = Table nm cols,
                        handle_name = nm, column_names = map col_name cols \<rparr>) \<rparr>,
                 db)))
    \<and> (filter primary_key cols = [] \<longrightarrow>
        create_table (session m) db nm tc rec = (Inl ArgumentError, db)
      \<and> get_table m db nm (\<lambda>sess d n. create_table sess d n tc rec)
          = (Inl ArgumentError, db))"
proof -
  let ?h = "\<lparr> Class = TableClass (Table nm cols), sqlalchemy_table = Table nm cols,
             handle_name = nm, column_names = map col_name cols \<rparr>"
  have keyed: "create_table (session m) db nm tc rec
          = (Inr (Some (TableClass (Table nm cols))), db)
      \<and> get_table m db nm (\<lambda>sess d n. create_table sess d n tc rec) = (Inr ?h, db)
      \<and> (name_to_table m nm = None \<and> table_name tc = nm \<longrightarrow>
            open_table_for_write m db tc rec
              = (Inr ?h, m\<lparr> name_to_table := (name_to_table m)(nm \<mapsto> ?h) \<rparr>, db))"
    if k: "filter primary_key cols \<noteq> []"
  proof -
    have c: "create_table (session m) db nm tc rec
          = (Inr (Some (TableClass (Table nm cols))), db)"
      using assms k by (simp add: create_table_present)
    then have g: "get_table m db nm (\<lambda>sess d n. create_table sess d n tc rec) = (Inr ?h, db)"
      by (simp add: get_table_def Table_init_def get_column_names_from_table_def)
    have "open_table_for_write m db tc rec
              = (Inr ?h, m\<lparr> name_to_table := (name_to_table m)(nm \<mapsto> ?h) \<rparr>, db)"
      if "name_to_table m nm = None \<and> table_name tc = nm"
      using that g by (simp add: open_table_for_write_def open_table_def)
    with c g show ?thesis by blast
  qed
  have keyless: "create_table (session m) db nm tc rec = (Inl ArgumentError, db)
      \<and> get_table m db nm (\<lambda>sess d n. create_table sess d n tc rec)
          = (Inl ArgumentError, db)"
    if k: "filter primary_key cols = []"
  proof -
    have c: "create_table (session m) db nm tc rec = (Inl ArgumentError, db)"
      using assms k by (simp add: create_table_keyless)
    then show ?thesis by (simp add: get_table_def)
  qed
  from keyed keyless show ?thesis by blast
qed

theorem write_existing_table_returns_it_unchecked_witness:
  "open_table_for_write (started_manager ''sqlite'' accepting_server) students_database
       (students_config\<lparr> create_table_if_missing := False \<rparr>)
       [(''unknown_column'', PyStr ''x'')]
     = (Inr \<lparr> Class = TableClass (Table ''students''
                 [Column ''id'' Integer True, Column ''name'' String False,
                  Column ''age'' Integer False]),
              sqlalchemy_table = Table ''students''
                 [Column ''id'' Integer True, Column ''name'' String False,
                  Column ''age'' Integer False],
              handle_name = ''students'',
              column_names = [''id'', ''name'', ''age''] \<rparr>,
        (started_manager ''sqlite'' accepting_server)
          \<lparr> name_to_table :=
              (name_to_table (started_manager ''sqlite'' accepting_server))(''students'' \<mapsto>
                \<lparr> Class = TableClass (Table ''students''
                     [Column ''id'' Integer True, Column ''name'' String False,
                      Column ''age'' Integer False]),
                  sqlalchemy_table = Table ''students''
                     [Column ''id'' Integer True, Column ''name'' String False,
                      Column ''age'' Integer False],
                  handle_name = ''students'',
                  column_names = [''id'', ''name'', ''age''] \<rparr>) \<rparr>,
        students_database)
   \<and> get_table (started_manager ''sqlite'' accepting_server) keyless_database ''log''
       (\<lambda>sess d n. create_table sess d n students_config students_record)
     = (Inl ArgumentError, keyless_database)"
proof -
  let ?m = "started_manager ''sqlite'' accepting_server"
  let ?cols = "[Column ''id'' Integer True, Column ''name'' String False,
                Column ''age'' Integer False]"
  have h1: "session ?m
      = Some \<lparr> bind = create_engine (url (source_for ''sqlite'')) accepting_server, calls = [] \<rparr>"
    by (simp add: started_manager_def start_session_def SqlAlchemyDB_init_def source_for_def
          SourceConfiguration_init_def)
  have h2: "db_tables students_database ''students'' = Some ?cols"
    by (simp add: students_database_def)
  have h3: "filter primary_key ?cols \<noteq> []"
    by simp
  have h4: "name_to_table ?m ''students'' = None
      \<and> table_name (students_config\<lparr> create_table_if_missing := False \<rparr>) = ''students''"
    by (simp add: started_manager_def start_session_def SqlAlchemyDB_init_def source_for_def
          SourceConfiguration_init_def students_config_def TableConfiguration_init_def)
  have k2: "db_tables keyless_database ''log'' = Some [Column ''message'' String False]"
    by (simp add: keyless_database_def)
  have k3: "filter primary_key [Column ''message'' String False] = []"
    by simp
  from write_existing_table_returns_it_unchecked [OF h1 h2,
         of "students_config\<lparr> create_table_if_missing := False \<rparr>"
            "[(''unknown_column'', PyStr ''x'')]"]
    write_existing_table_returns_it_unchecked [OF h1 k2, of students_config students_record]
    h3 h4 k3
  show ?thesis by simp
qed

text \<open>
  Without the restriction to tables with a primary key the property does not hold: for
  the existing table \<^verbatim>\<open>log\<close>, whose only column is no primary key, resolution for a
  write returns no handle but raises \<^verbatim>\<open>ArgumentError\<close>.
\<close>

theorem write_existing_keyless_table_counterexample:
  "db_tables keyless_database ''log'' = Some [Column ''message'' String False]
   \<and> fst (get_table (started_manager ''sqlite'' accepting_server) keyless_database ''log''
        (\<lambda>sess d n. create_table sess d n
            (TableConfiguration_init ''log'' None False None None)
            [(''message'', PyStr ''started'')]))
     = Inl ArgumentError
   \<and> fst (write_record (started_manager ''sqlite'' accepting_server) keyless_database
        (TableConfiguration_init ''log'' None False None None)
        [(''message'', PyStr ''started'')])
     = Inl ArgumentError"
  by (simp add: example_defs operation_defs keyless_database_def)

text \<open>
  C9. When opening a table fails (for a read or for a write), the manager is unchanged:
  the cache is the same and has no entry for that name. A later write of the same name
  with create-if-missing set, on a session, with the table still absent, columns derivable
  from the sample and the server accepting the table, creates the table and caches its
  handle. The created table has the derived columns, one per column name; they are the
  derived columns themselves when no name is repeated.
\<close>

theorem failed_resolution_leaves_cache:
  assumes "open_table m db nm g = (Inl e, m', db')"
  shows "name_to_table m' = name_to_table m
    \<and> name_to_table m' nm = None
    \<and> (table_name tc = nm \<and> create_table_if_missing tc \<and> define_table_f tc = None
        \<and> session m' = Some s \<and> db_tables db' nm = None
        \<and> columns_from_sample_record rec (primary_key_column_names tc)
              (drivername (engine_url (bind s))) = Inr cols
        \<and> create_table_error (engine_backend (bind s)) (Table nm (table_columns cols)) = None
      \<longrightarrow> open_table_for_write m' db' tc rec
            = (Inr \<lparr> Class = TableClass (Table nm (table_columns cols)),
                     sqlalchemy_table = Table nm (table_columns cols),
                     handle_name = nm,
                     column_names = map col_name (table_columns cols) \<rparr>,
               m'\<lparr> name_to_table := (name_to_table m')(nm \<mapsto>
                     \<lparr> Class = TableClass (Table nm (table_columns cols)),
                       sqlalchemy_table = Table nm (table_columns cols),
                       handle_name = nm,
                       column_names = map col_name (table_columns cols) \<rparr>) \<rparr>,
               db'\<lparr> db_tables := (db_tables db')(nm \<mapsto> table_columns cols) \<rparr>)
          \<and> (distinct (map col_name cols) \<longrightarrow> table_columns cols = cols))"
proof -
  let ?t = "Table nm (table_columns cols)"
  let ?h = "\<lparr> Class = TableClass ?t, sqlalchemy_table = ?t, handle_name = nm,
             column_names = map col_name (table_columns cols) \<rparr>"
  from open_table_failed [OF assms] have same: "m' = m" and miss: "name_to_table m nm = None"
    by simp_all
  have "open_table_for_write m' db' tc rec
            = (Inr ?h, m'\<lparr> name_to_table := (name_to_table m')(nm \<mapsto> ?h) \<rparr>,
               db'\<lparr> db_tables := (db_tables db')(nm \<mapsto> table_columns cols) \<rparr>)
        \<and> (distinct (map col_name cols) \<longrightarrow> table_columns cols = cols)"
    if h: "table_name tc = nm \<and> create_table_if_missing tc \<and> define_table_f tc = None
        \<and> session m' = Some s \<and> db_tables db' nm = None
        \<and> columns_from_sample_record rec (primary_key_column_names tc)
              (drivername (engine_url (bind s))) = Inr cols
        \<and> create_table_error (engine_backend (bind s)) (Table nm (table_columns cols)) = None"
  proof -
    from h have key: "filter primary_key (table_columns cols) \<noteq> []"
      using columns_from_sample_record_key by blast
    have "create_table (session m') db' nm tc rec
        = (Inr (Some (TableClass ?t)),
           db'\<lparr> db_tables := (db_tables db')(nm \<mapsto> table_columns cols) \<rparr>)"
      using h key by (simp add: create_table_def load_table_absent get_default_define_f_def
          create_all_def new_Table_def create_table_class_def)
    then have "get_table m' db' nm (\<lambda>sess d n. create_table sess d n tc rec)
        = (Inr ?h, db'\<lparr> db_tables := (db_tables db')(nm \<mapsto> table_columns cols) \<rparr>)"
      by (simp add: get_table_def Table_init_def get_column_names_from_table_def)
    then have "open_table_for_write m' db' tc rec
            = (Inr ?h, m'\<lparr> name_to_table := (name_to_table m')(nm \<mapsto> ?h) \<rparr>,
               db'\<lparr> db_tables := (db_tables db')(nm \<mapsto> table_columns cols) \<rparr>)"
      using h miss same by (simp add: open_table_for_write_def open_table_def)
    then show ?thesis by (simp add: table_columns_distinct)
  qed
  with same miss show ?thesis by blast
qed

theorem failed_resolution_leaves_cache_witness:
  "open_table_for_write (started_manager ''sqlite'' accepting_server) empty_database
       students_config students_record
     = (Inr \<lparr> Class = TableClass (Table ''students''
                 [Column ''id'' Float True, Column ''name'' String False,
                  Column ''age'' Float False]),
              sqlalchemy_table = Table ''students''
                 [Column ''id'' Float True, Column ''name'' String False,
                  Column ''age'' Float False],
              handle_name = ''students'',
              column_names = [''id'', ''name'', ''age''] \<rparr>,
        (started_manager ''sqlite'' accepting_server)
          \<lparr> name_to_table :=
              (name_to_table (started_manager ''sqlite'' accepting_server))(''students'' \<mapsto>
                \<lparr> Class = TableClass (Table ''students''
                     [Column ''id'' Float True, Column ''name'' String False,
                      Column ''age'' Float False]),
                  sqlalchemy_table = Table ''students''
                     [Column ''id'' Float True, Column ''name'' String False,
                      Column ''age'' Float False],
                  handle_name = ''students'',
                  column_names = [''id'', ''name'', ''age''] \<rparr>) \<rparr>,
        empty_database\<lparr> db_tables := (db_tables empty_database)(''students'' \<mapsto>
            [Column ''id'' Float True, Column ''name'' String False, Column ''age'' Float False]) \<rparr>)"
proof -
  let ?m = "started_manager ''sqlite'' accepting_server"
  let ?s = "\<lparr> bind = create_engine (url (source_for ''sqlite'')) accepting_server, calls = [] \<rparr>"
  let ?cols = "[Column ''id'' Float True, Column ''name'' String False, Column ''age'' Float False]"
  have s: "session ?m = Some ?s"
    by (simp add: started_manager_def start_session_def SqlAlchemyDB_init_def source_for_def
          SourceConfiguration_init_def)
  have miss: "name_to_table ?m ''students'' = None"
    by (simp add: started_manager_def start_session_def SqlAlchemyDB_init_def source_for_def
          SourceConfiguration_init_def)
  have absent: "db_tables empty_database ''students'' = None"
    by (simp add: empty_database_def)
  have failed: "open_table ?m empty_database ''students'' (\<lambda>sess d n. (load_table sess d n, d))
      = (Inl (SqlAlchemyDbException ''Failed to get table students''), ?m, empty_database)"
    using s miss absent by (simp add: open_table_def get_table_def load_table_def)
  have cfg: "table_name students_config = ''students'' \<and> create_table_if_missing students_config
      \<and> define_table_f students_config = None
      \<and> primary_key_column_names students_config = [''id'']"
    by (simp add: students_config_def TableConfiguration_init_def)
  have drv: "drivername (engine_url (bind ?s)) = ''sqlite''"
    by (simp add: create_engine_def source_for_def SourceConfiguration_init_def)
  have cols: "columns_from_sample_record students_record (primary_key_column_names students_config)
      (drivername (engine_url (bind ?s))) = Inr ?cols"
    unfolding drv
    by (simp add: cfg columns_from_sample_record_def students_record_def getitem_def
          infer_db_type_unfold sublist_code)
  have tc: "table_columns ?cols = ?cols"
    by (simp add: table_columns_def)
  have accepted: "create_table_error (engine_backend (bind ?s))
      (Table ''students'' (table_columns ?cols)) = None"
    by (simp add: create_engine_def accepting_server_def)
  from failed_resolution_leaves_cache [OF failed, of students_config ?s students_record ?cols]
    cfg s absent cols accepted
  show ?thesis by (simp add: tc)
qed

section \<open>Failure of a write\<close>

text \<open>
  C1 (amended). For a call of \<open>write_record\<close> on a started session that fails: when
  the table had been opened (the failure arose while building the statement, executing
  it or committing), the last two calls on the session are the rollback and then the
  close, neither having been made earlier in this call, the stored data is as it was
  after the table was opened, and the manager keeps its reference to that closed session;
  when the failure arose while opening the table, it is raised as it is, and the manager
  with its session is untouched: no rollback and no close.
\<close>

theorem write_record_failure_after_resolution_rolls_back_and_closes:
  assumes "write_record m db tc rec = (Inl e, m'', db'')"
    and "session m = Some s"
  shows "(\<forall>t m' db'. open_table_for_write m db tc rec = (Inr t, m', db') \<longrightarrow>
            (\<exists>pre. session m'' = Some (call s (pre @ [Rollback, Close]))
                \<and> Rollback \<notin> set pre \<and> Close \<notin> set pre)
            \<and> db'' = db' \<and> name_to_table m'' = name_to_table m')
    \<and> (\<forall>e' m' db'. open_table_for_write m db tc rec = (Inl e', m', db') \<longrightarrow>
            e = e' \<and> m'' = m \<and> db'' = db' \<and> session m'' = Some s)"
proof -
  have p1: "(\<exists>pre. session m'' = Some (call s (pre @ [Rollback, Close]))
                \<and> Rollback \<notin> set pre \<and> Close \<notin> set pre)
            \<and> db'' = db' \<and> name_to_table m'' = name_to_table m'"
    if o: "open_table_for_write m db tc rec = (Inr t, m', db')" for t m' db'
  proof -
    from o have s': "session m' = Some s"
      using open_table_returned [of m db "table_name tc" _ t m' db'] assms(2)
      by (simp add: open_table_for_write_def)
    obtain r sess' d where w: "Table_write_record t (Some s) (get_create_insert_f m' tc) rec db'
        = (r, sess', d)"
      by (cases "Table_write_record t (Some s) (get_create_insert_f m' tc) rec db'") blast
    with assms(1) o s' have eq: "r = Inl e" "m'' = m'\<lparr> session := sess' \<rparr>" "db'' = d"
      by (simp_all add: write_record_def)
    from Table_write_record_failed [OF w [unfolded eq(1)]] eq
    show ?thesis by auto
  qed
  have p2: "e = e' \<and> m'' = m \<and> db'' = db' \<and> session m'' = Some s"
    if o: "open_table_for_write m db tc rec = (Inl e', m', db')" for e' m' db'
  proof -
    from o have "m' = m"
      using open_table_failed [of m db "table_name tc" _ e' m' db']
      by (simp add: open_table_for_write_def)
    with assms o show ?thesis
      by (simp add: write_record_def)
  qed
  from p1 p2 show ?thesis by blast
qed

theorem write_record_failure_after_resolution_rolls_back_and_closes_witness:
  "fst (write_record (started_manager ''sqlite'' rejecting_server) empty_database
          students_config students_record)
     = Inl (DatabaseError ''constraint violation'')
   \<and> (\<exists>pre. session (fst (snd (write_record (started_manager ''sqlite'' rejecting_server)
                  empty_database students_config students_record)))
          = Some (call \<lparr> bind = create_engine (url (source_for ''sqlite'')) rejecting_server,
                         calls = [] \<rparr> (pre @ [Rollback, Close]))
        \<and> Rollback \<notin> set pre \<and> Close \<notin> set pre)"
proof -
  let ?m = "started_manager ''sqlite'' rejecting_server"
  let ?s = "\<lparr> bind = create_engine (url (source_for ''sqlite'')) rejecting_server, calls = [] \<rparr>"
  have s: "session ?m = Some ?s"
    by (simp add: started_manager_def start_session_def SqlAlchemyDB_init_def source_for_def
          SourceConfiguration_init_def)
  have failed: "fst (write_record ?m empty_database students_config students_record)
      = Inl (DatabaseError ''constraint violation'')"
    by (simp add: example_defs operation_defs infer_db_type_unfold sublist_code)
  obtain r m'' db'' where w: "write_record ?m empty_database students_config students_record
      = (r, m'', db'')"
    by (cases "write_record ?m empty_database students_config students_record") blast
  with failed have w': "write_record ?m empty_database students_config students_record
      = (Inl (DatabaseError ''constraint violation''), m'', db'')"
    by simp
  have "\<exists>t m' db'. open_table_for_write ?m empty_database students_config students_record
      = (Inr t, m', db')"
    by (simp add: example_defs operation_defs infer_db_type_unfold sublist_code)
  then obtain t m' db' where
    o: "open_table_for_write ?m empty_database students_config students_record = (Inr t, m', db')"
    by blast
  from write_record_failure_after_resolution_rolls_back_and_closes [OF w' s] o
  have "\<exists>pre. session m'' = Some (call ?s (pre @ [Rollback, Close]))
                \<and> Rollback \<notin> set pre \<and> Close \<notin> set pre"
    by blast
  with failed w show ?thesis by simp
qed

text \<open>
  Without the restriction to failures after the table was opened the property does not
  hold: a write of an absent table without create-if-missing fails, and the session has
  received no call at all, neither rollback nor close.
\<close>

theorem write_record_resolution_failure_counterexample:
  "fst (write_record (started_manager ''sqlite'' accepting_server) empty_database
          (students_config\<lparr> create_table_if_missing := False \<rparr>) students_record)
     = Inl (SqlAlchemyDbException ''Failed to get table students'')
   \<and> session (fst (snd (write_record (started_manager ''sqlite'' accepting_server) empty_database
          (students_config\<lparr> create_table_if_missing := False \<rparr>) students_record)))
     = Some \<lparr> bind = create_engine (url (source_for ''sqlite'')) accepting_server, calls = [] \<rparr>"
  by (simp add: example_defs operation_defs)

section \<open>The cache of table handles\<close>

text \<open>
  C2 (amended). Once opening a table name has returned a handle (loaded or created, by a
  read or a write), the handle is the cache entry of that name and stays so through
  \<open>close_session\<close> and through any sequence of later operations on the manager; every
  later opening of that name, for read or for write, returns that same handle without
  calling the function that loads or creates, and leaves manager and database unchanged.
  The entry is never invalidated.
\<close>

theorem resolved_table_stays_cached:
  assumes "open_table m db nm g = (Inr t, m', db')"
  shows "name_to_table m' nm = Some t
    \<and> name_to_table (fst (snd (close_session m' db'))) nm = Some t
    \<and> name_to_table (fst (run_operations ops (m', db'))) nm = Some t
    \<and> (\<forall>m2 db2. run_operations ops (m', db') = (m2, db2) \<longrightarrow>
          open_table m2 db2 nm g' = (Inr t, m2, db2)
        \<and> open_table_for_read m2 db2 nm = (Inr t, m2, db2)
        \<and> (table_name tc = nm \<longrightarrow> open_table_for_write m2 db2 tc rec = (Inr t, m2, db2)))"
proof -
  from open_table_returned [OF assms] have c: "name_to_table m' nm = Some t" by simp
  then have cl: "name_to_table (fst (snd (close_session m' db'))) nm = Some t"
    by (simp add: close_session_keeps)
  from c have k: "name_to_table (fst (run_operations ops (m', db'))) nm = Some t"
    using run_operations_keeps [of "(m', db')" nm t ops] by simp
  have "open_table m2 db2 nm g' = (Inr t, m2, db2)
        \<and> open_table_for_read m2 db2 nm = (Inr t, m2, db2)
        \<and> (table_name tc = nm \<longrightarrow> open_table_for_write m2 db2 tc rec = (Inr t, m2, db2))"
    if "run_operations ops (m', db') = (m2, db2)" for m2 db2
  proof -
    from that k have "name_to_table m2 nm = Some t" by simp
    then show ?thesis
      by (simp add: open_table_cached open_table_for_read_def open_table_for_write_def)
  qed
  with c cl k show ?thesis by blast
qed

theorem resolved_table_stays_cached_witness:
  "\<exists>t m' db'. open_table_for_write (started_manager ''sqlite'' accepting_server) empty_database
        students_config students_record = (Inr t, m', db')
     \<and> name_to_table (fst (run_operations [CloseSession, StartSession, Read ''students'']
          (m', db'))) ''students'' = Some t"
proof -
  have "\<exists>t m' db'. open_table (started_manager ''sqlite'' accepting_server) empty_database
      ''students'' (\<lambda>sess d n. create_table sess d n students_config students_record)
      = (Inr t, m', db')"
    by (simp add: example_defs operation_defs infer_db_type_unfold sublist_code)
  then obtain t m' db' where
    o: "open_table (started_manager ''sqlite'' accepting_server) empty_database
      ''students'' (\<lambda>sess d n. create_table sess d n students_config students_record)
      = (Inr t, m', db')"
    by blast
  have nm: "table_name students_config = ''students''"
    by (simp add: students_config_def TableConfiguration_init_def)
  from resolved_table_stays_cached [OF o, of "[CloseSession, StartSession, Read ''students'']"] o
  show ?thesis
    by (simp add: open_table_for_write_def nm)
qed

text \<open>
  Closing the session does not invalidate the entry: after a write that created
  \<^verbatim>\<open>students\<close> and a \<open>close_session\<close>, the manager has no session and the cache
  still holds the handle.
\<close>

theorem cache_entry_survives_close_counterexample:
  "session (fst (run_operations
        [StartSession, WriteRecord students_config students_record, CloseSession]
        (SqlAlchemyDB_init (source_for ''sqlite'') accepting_server, empty_database))) = None
   \<and> name_to_table (fst (run_operations
        [StartSession, WriteRecord students_config students_record, CloseSession]
        (SqlAlchemyDB_init (source_for ''sqlite'') accepting_server, empty_database))) ''students''
     = Some \<lparr> Class = TableClass (Table ''students''
                 [Column ''id'' Float True, Column ''name'' String False,
                  Column ''age'' Float False]),
              sqlalchemy_table = Table ''students''
                 [Column ''id'' Float True, Column ''name'' String False,
                  Column ''age'' Float False],
              handle_name = ''students'',
              column_names = [''id'', ''name'', ''age''] \<rparr>"
  by (simp add: example_defs operation_defs infer_db_type_unfold sublist_code)

end
